theory Spec2Isabelle
  imports Main "HOL-Library.Word"
begin

section \<open>Engine value types used by the widget manager\<close>

text \<open>
  The controller in \<^verbatim>\<open>Source/EasySynth/Private/Widgets/WidgetManager.cpp\<close> only moves
  engine values around. Each engine type is represented by the part of it that the file reads:
  an \<open>FName\<close> by its text (HOL equality stands for the engine's name comparison), a soft object
  path by the name of the object it points to, an asset-registry entry by its object path, asset
  name and class path, \<open>int32\<close> and \<open>int8\<close> as machine words, and a \<open>float\<close> by its 32-bit
  pattern (the file copies floats, it never computes with them).
\<close>

datatype FName = FName string

definition NAME_None :: FName where
  "NAME_None = FName ''None''"

fun ToString :: "FName \<Rightarrow> string" where
  "ToString (FName n) = n"

datatype FTopLevelAssetPath = FTopLevelAssetPath (GetPackageName: FName) (GetAssetName: FName)

datatype FSoftObjectPath = FSoftObjectPath FName

record FAssetData =
  ObjectPath :: FName
  AssetName :: FName
  AssetClassPath :: FTopLevelAssetPath

text \<open>\<open>FAssetData()\<close>: the default-constructed entry, every name \<open>NAME_None\<close>.\<close>

definition FAssetData_default :: FAssetData where
  "FAssetData_default =
     \<lparr>ObjectPath = NAME_None, AssetName = NAME_None,
      AssetClassPath = FTopLevelAssetPath NAME_None NAME_None\<rparr>"

definition ToSoftObjectPath :: "FAssetData \<Rightarrow> FSoftObjectPath" where
  "ToSoftObjectPath a = FSoftObjectPath (ObjectPath a)"

text \<open>
  \<open>FAssetData(const UObject*)\<close>, the implicit conversion applied to the result of
  \<open>FSoftObjectPath::TryLoad\<close>. A loaded object is represented by its registry entry; the null
  pointer gives the default entry.
\<close>

definition FAssetData_of_UObject :: "FAssetData option \<Rightarrow> FAssetData" where
  "FAssetData_of_UObject p = (case p of None \<Rightarrow> FAssetData_default | Some a \<Rightarrow> a)"

datatype FIntPoint = FIntPoint "32 word" "32 word"

type_synonym float32 = "32 word"

text \<open>\<open>enum class EImageFormat : int8\<close>: a value of the enumeration is its underlying \<open>int8\<close>.\<close>

datatype EImageFormat = EImageFormat "8 word"

fun static_cast_int8 :: "EImageFormat \<Rightarrow> 8 word" where
  "static_cast_int8 (EImageFormat w) = w"

definition static_cast_EImageFormat :: "8 word \<Rightarrow> EImageFormat" where
  "static_cast_EImageFormat w = EImageFormat w"

section \<open>The persisted widget state asset\<close>

text \<open>
  Modelled from the spec: the class \<open>UWidgetStateAsset\<close> is declared in
  \<^verbatim>\<open>Widgets/WidgetStateAsset.h\<close>, which is not part of the sources. The spec's "persisted
  asset fields" are the fields that \<open>SaveWidgetOptionStates\<close> writes and
  \<open>LoadWidgetOptionStates\<close> reads, under the names the two functions use. The format fields
  hold the \<open>int8\<close> that the save path produces with \<open>static_cast<int8>\<close>.
\<close>

record UWidgetStateAsset =
  LevelSequenceAssetPath :: FSoftObjectPath
  bCameraPosesSelected :: bool
  bColorImagesSelected :: bool
  bDepthImagesSelected :: bool
  bNormalImagesSelected :: bool
  bOpticalFlowImagesSelected :: bool
  bSemanticImagesSelected :: bool
  bColorImagesOutputFormat :: "8 word"
  bDepthImagesOutputFormat :: "8 word"
  bNormalImagesOutputFormat :: "8 word"
  bOpticalFlowImagesOutputFormat :: "8 word"
  bSemanticImagesOutputFormat :: "8 word"
  CustomPPMaterialAssetPath :: FSoftObjectPath
  bCustomPPMaterialOutputFormat :: "8 word"
  OutputImageResolution :: FIntPoint
  DepthRange :: float32
  OpticalFlowScale :: float32
  OutputDirectory :: string

section \<open>Renderer target options\<close>

text \<open>The target kinds of \<open>FRendererTargetOptions::TargetType\<close> that the file names.\<close>

datatype TargetType =
  COLOR_IMAGE | DEPTH_IMAGE | NORMAL_IMAGE | OPTICAL_FLOW_IMAGE | SEMANTIC_IMAGE | CUSTOM_PP_MATERIAL

text \<open>
  Modelled from the spec: the class \<open>FRendererTargetOptions\<close> is declared in a header that is
  not part of the sources. The spec calls the option handling "straightforward option
  bookkeeping (checkbox/combo state <-> persisted asset fields)", so each accessor pair that
  \<^verbatim>\<open>WidgetManager.cpp\<close> calls is a plain read and write of one stored value.
  \<open>AnyOptionSelected\<close> is not an accessor pair; it stays a parameter (see \<open>deps\<close> below).
\<close>

record FRendererTargetOptions =
  bExportCameraPoses :: bool
  SelectedTargets :: "TargetType \<Rightarrow> bool"
  OutputFormats :: "TargetType \<Rightarrow> EImageFormat"
  CustomPPMaterialAssetData :: FAssetData
  DepthRangeMetersValue :: float32
  OpticalFlowScaleValue :: float32

definition ExportCameraPoses :: "FRendererTargetOptions \<Rightarrow> bool" where
  "ExportCameraPoses t = bExportCameraPoses t"

definition SetExportCameraPoses :: "bool \<Rightarrow> FRendererTargetOptions \<Rightarrow> FRendererTargetOptions" where
  "SetExportCameraPoses v t = t\<lparr>bExportCameraPoses := v\<rparr>"

definition TargetSelected :: "TargetType \<Rightarrow> FRendererTargetOptions \<Rightarrow> bool" where
  "TargetSelected T t = SelectedTargets t T"

definition SetSelectedTarget ::
  "TargetType \<Rightarrow> bool \<Rightarrow> FRendererTargetOptions \<Rightarrow> FRendererTargetOptions" where
  "SetSelectedTarget T v t = t\<lparr>SelectedTargets := (SelectedTargets t)(T := v)\<rparr>"

definition OutputFormat :: "TargetType \<Rightarrow> FRendererTargetOptions \<Rightarrow> EImageFormat" where
  "OutputFormat T t = OutputFormats t T"

definition SetOutputFormat ::
  "TargetType \<Rightarrow> EImageFormat \<Rightarrow> FRendererTargetOptions \<Rightarrow> FRendererTargetOptions" where
  "SetOutputFormat T f t = t\<lparr>OutputFormats := (OutputFormats t)(T := f)\<rparr>"

definition CustomPPMaterial :: "FRendererTargetOptions \<Rightarrow> FAssetData" where
  "CustomPPMaterial t = CustomPPMaterialAssetData t"

definition SetCustomPPMaterialAssetData ::
  "FAssetData \<Rightarrow> FRendererTargetOptions \<Rightarrow> FRendererTargetOptions" where
  "SetCustomPPMaterialAssetData a t = t\<lparr>CustomPPMaterialAssetData := a\<rparr>"

definition DepthRangeMeters :: "FRendererTargetOptions \<Rightarrow> float32" where
  "DepthRangeMeters t = DepthRangeMetersValue t"

definition SetDepthRangeMeters :: "float32 \<Rightarrow> FRendererTargetOptions \<Rightarrow> FRendererTargetOptions" where
  "SetDepthRangeMeters v t = t\<lparr>DepthRangeMetersValue := v\<rparr>"

definition OpticalFlowScale :: "FRendererTargetOptions \<Rightarrow> float32" where
  "OpticalFlowScale t = OpticalFlowScaleValue t"

definition SetOpticalFlowScale :: "float32 \<Rightarrow> FRendererTargetOptions \<Rightarrow> FRendererTargetOptions" where
  "SetOpticalFlowScale v t = t\<lparr>OpticalFlowScaleValue := v\<rparr>"

section \<open>Effects on the editor\<close>

text \<open>
  Texts are kept as the expressions that build them: \<open>FText::Format\<close> and
  \<open>FText::AsNumber\<close> are locale dependent and stay unevaluated. Every call that leaves the
  widget manager is recorded, in order, in the \<open>effects\<close> list of the state. Diagnostic
  \<open>UE_LOG\<close> lines are not recorded.
\<close>

datatype FText =
  LOCTEXT string string
  | FromString string
  | Format FText "FText list"
  | AsNumber int

datatype EAppMsgType = Ok

datatype effect =
  MessageDialog_Open EAppMsgType FText FText
  | ForceGarbageCollection bool
  | PlatformProcess_Sleep_1s
  | RenderSequenceCall FAssetData FRendererTargetOptions FIntPoint string
  | AssetRegistry_AddPath
  | CreatePackage
  | SaveLoadedAsset UWidgetStateAsset bool

datatype fault = NullPointerDereference

section \<open>What the file calls but does not define\<close>

text \<open>
  The engine and the plugin classes whose code is not in this file are parameters. \<open>'r\<close> is
  the state of the \<open>USequenceRenderer\<close> object; \<open>RenderSequence\<close> returns its answer and the
  renderer's new state, and \<open>GetErrorMessage\<close> and \<open>IsRendering\<close> read that state.
  \<open>AnyOptionSelected\<close> and the default constructor belong to \<open>FRendererTargetOptions\<close>,
  \<open>DefaultRenderingOutputPath\<close> to \<open>FPathUtils\<close>. From the engine come the package name
  conversion, the asset registry query (path and the \<open>bRecursive\<close> flag), \<open>PathAppend\<close>
  (\<open>FString\<close>'s \<open>operator/\<close>), \<open>TryLoad\<close> (the loaded object as its registry entry, or
  \<open>None\<close> for \<open>nullptr\<close>) and the field values of a newly created widget state asset.
\<close>

record 'r deps =
  TryConvertFilenameToLongPackageName :: "string \<Rightarrow> string option"
  GetAssetsByPath :: "FName \<Rightarrow> bool \<Rightarrow> FAssetData list"
  PathAppend :: "string \<Rightarrow> string \<Rightarrow> string"
  RenderSequence ::
    "'r \<Rightarrow> FAssetData \<Rightarrow> FRendererTargetOptions \<Rightarrow> FIntPoint \<Rightarrow> string \<Rightarrow> bool \<times> 'r"
  GetErrorMessage :: "'r \<Rightarrow> string"
  IsRendering :: "'r \<Rightarrow> bool"
  AnyOptionSelected :: "FRendererTargetOptions \<Rightarrow> bool"
  TryLoad :: "FSoftObjectPath \<Rightarrow> FAssetData option"
  NewObject_UWidgetStateAsset :: UWidgetStateAsset
  NewObject_USequenceRenderer :: "'r"
  DefaultRenderingOutputPath :: string
  FRendererTargetOptions_ctor :: FRendererTargetOptions

section \<open>The widget manager\<close>

text \<open>
  The members of \<open>FWidgetManager\<close> that the handlers below use. \<open>SequenceRenderer\<close> is a
  pointer: \<open>None\<close> is \<open>nullptr\<close>, \<open>Some r\<close> an object in state \<open>r\<close>.
  \<open>CurrentSequenceIndex\<close> is an \<open>int32\<close> that stays between \<open>-1\<close> and the length of the
  queue, so it is an integer here.
\<close>

record 'r FWidgetManager =
  SelectedSequencesFolder :: string
  SequenceRendererTargets :: FRendererTargetOptions
  OutputImageResolution :: FIntPoint
  OutputDirectory :: string
  BaseOutputDirectory :: string
  SequencesToRender :: "FAssetData list"
  CurrentSequenceIndex :: int
  SequenceRenderer :: "'r option"

text \<open>
  The editor around it: the object stored at \<open>FPathUtils::WidgetStateAssetPath()\<close>
  (\<open>None\<close> when \<open>LoadObject\<close> finds nothing) and the effects so far.
\<close>

record 'r editor = "'r FWidgetManager" +
  WidgetStateAssetObject :: "UWidgetStateAsset option"
  effects :: "effect list"

definition emit :: "effect \<Rightarrow> 'r editor \<Rightarrow> 'r editor" where
  "emit e s = s\<lparr>effects := effects s @ [e]\<rparr>"

text \<open>
  The constructor (lines 30-64), as far as these members go. \<open>check(SequenceRenderer)\<close>
  passes, so the pointer is not null; \<open>NewObject_USequenceRenderer\<close> is the renderer's state
  once the constructor has registered the callback and the texture style manager with it. The
  members without an initialiser are default-constructed.
\<close>

definition FWidgetManager_ctor ::
  "'r deps \<Rightarrow> UWidgetStateAsset option \<Rightarrow> effect list \<Rightarrow> 'r editor" where
  "FWidgetManager_ctor d stored es =
     \<lparr>SelectedSequencesFolder = [],
      SequenceRendererTargets = FRendererTargetOptions_ctor d,
      OutputImageResolution = FIntPoint 1920 1080,
      OutputDirectory = DefaultRenderingOutputPath d,
      BaseOutputDirectory = [],
      SequencesToRender = [],
      CurrentSequenceIndex = - 1,
      SequenceRenderer = Some (NewObject_USequenceRenderer d),
      WidgetStateAssetObject = stored,
      effects = es\<rparr>"

subsection \<open>Target check boxes (\<open>OnSpawnPluginTab\<close>, lines 77-118 and 246-275)\<close>

text \<open>
  \<open>TMap::Add\<close> replaces the value of a key that is present and appends a new key otherwise;
  iteration follows insertion order.
\<close>

fun TMap_Add :: "'k \<Rightarrow> 'v \<Rightarrow> ('k \<times> 'v) list \<Rightarrow> ('k \<times> 'v) list" where
  "TMap_Add k v [] = [(k, v)]"
| "TMap_Add k v ((k', v') # m) = (if k = k' then (k, v) # m else (k', v') # TMap_Add k v m)"

definition TargetCheckBoxNames :: "(TargetType \<times> FText) list" where
  "TargetCheckBoxNames =
     TMap_Add SEMANTIC_IMAGE (LOCTEXT ''SemanticImagesCheckBoxText'' ''Semantic images'')
       (TMap_Add OPTICAL_FLOW_IMAGE (LOCTEXT ''OpticalFlowImagesCheckBoxText'' ''Optical flow images'')
         (TMap_Add NORMAL_IMAGE (LOCTEXT ''NormalImagesCheckBoxText'' ''Normal images'')
           (TMap_Add DEPTH_IMAGE (LOCTEXT ''DepthImagesCheckBoxText'' ''Depth images'')
             (TMap_Add COLOR_IMAGE (LOCTEXT ''ColorImagesCheckBoxText'' ''Color images'') []))))"

text \<open>
  The widgets that carry a target kind: a check box bound to \<open>RenderTargetsCheckedState\<close> and
  \<open>OnRenderTargetsChanged\<close>, a combo box bound to \<open>OnOutputFormatSelectionChanged\<close> and
  \<open>SelectedOutputFormat\<close>, and the material picker of the custom post-process target.
\<close>

datatype widget =
  SCheckBox TargetType FText
  | SComboBox_OutputFormat TargetType
  | SObjectPropertyEntryBox_Material

text \<open>The loop of lines 85-118: one slot, a check box and a combo box, per map element.\<close>

fun AddTargetSlots :: "(TargetType \<times> FText) list \<Rightarrow> widget list list \<Rightarrow> widget list list" where
  "AddTargetSlots [] slots = slots"
| "AddTargetSlots ((TargetType, CheckBoxText) # rest) slots =
     AddTargetSlots rest (slots @ [[SCheckBox TargetType CheckBoxText, SComboBox_OutputFormat TargetType]])"

definition TargetsScrollBoxes :: "widget list list" where
  "TargetsScrollBoxes = AddTargetSlots TargetCheckBoxNames []"

text \<open>The slot of lines 246-275: the custom post-process material row.\<close>

definition CustomPPMaterialSlot :: "widget list" where
  "CustomPPMaterialSlot = [SObjectPropertyEntryBox_Material, SComboBox_OutputFormat CUSTOM_PP_MATERIAL]"

subsection \<open>Option handlers\<close>

text \<open>\<open>NewStateChecked\<close> stands for \<open>NewState == ECheckBoxState::Checked\<close>.\<close>

definition OnSequencesFolderChanged :: "string \<Rightarrow> 'r editor \<Rightarrow> 'r editor" where
  "OnSequencesFolderChanged Directory s = s\<lparr>SelectedSequencesFolder := Directory\<rparr>"

definition OnRenderTargetsChanged :: "bool \<Rightarrow> TargetType \<Rightarrow> 'r editor \<Rightarrow> 'r editor" where
  "OnRenderTargetsChanged NewStateChecked TargetType s =
     s\<lparr>SequenceRendererTargets := SetSelectedTarget TargetType NewStateChecked (SequenceRendererTargets s)\<rparr>"

definition OnCustomPPMaterialSelected :: "FAssetData \<Rightarrow> 'r editor \<Rightarrow> 'r editor" where
  "OnCustomPPMaterialSelected AssetData s =
     s\<lparr>SequenceRendererTargets := SetCustomPPMaterialAssetData AssetData (SequenceRendererTargets s)\<rparr>"

subsection \<open>\<open>GetIsRenderImagesEnabled\<close> (lines 494-500)\<close>

definition GetIsRenderImagesEnabled :: "'r deps \<Rightarrow> 'r editor \<Rightarrow> bool" where
  "GetIsRenderImagesEnabled d s =
     (SelectedSequencesFolder s \<noteq> [] \<and>
      AnyOptionSelected d (SequenceRendererTargets s) \<and>
      (case SequenceRenderer s of None \<Rightarrow> False | Some r \<Rightarrow> \<not> IsRendering d r))"

subsection \<open>\<open>SaveWidgetOptionStates\<close> (lines 727-781)\<close>

definition SaveWidgetOptionStates :: "'r deps \<Rightarrow> 'r editor \<Rightarrow> 'r editor" where
  "SaveWidgetOptionStates d s =
     (let (s0, WidgetStateAsset) =
            (case WidgetStateAssetObject s of
               Some a \<Rightarrow> (s, a)
             | None \<Rightarrow> (emit CreatePackage (emit AssetRegistry_AddPath s), NewObject_UWidgetStateAsset d));
          t = SequenceRendererTargets s0;
          WidgetStateAsset = WidgetStateAsset
            \<lparr>LevelSequenceAssetPath := FSoftObjectPath NAME_None,
             bCameraPosesSelected := ExportCameraPoses t,
             bColorImagesSelected := TargetSelected COLOR_IMAGE t,
             bDepthImagesSelected := TargetSelected DEPTH_IMAGE t,
             bNormalImagesSelected := TargetSelected NORMAL_IMAGE t,
             bOpticalFlowImagesSelected := TargetSelected OPTICAL_FLOW_IMAGE t,
             bSemanticImagesSelected := TargetSelected SEMANTIC_IMAGE t,
             bColorImagesOutputFormat := static_cast_int8 (OutputFormat COLOR_IMAGE t),
             bDepthImagesOutputFormat := static_cast_int8 (OutputFormat DEPTH_IMAGE t),
             bNormalImagesOutputFormat := static_cast_int8 (OutputFormat NORMAL_IMAGE t),
             bOpticalFlowImagesOutputFormat := static_cast_int8 (OutputFormat OPTICAL_FLOW_IMAGE t),
             bSemanticImagesOutputFormat := static_cast_int8 (OutputFormat SEMANTIC_IMAGE t),
             CustomPPMaterialAssetPath := ToSoftObjectPath (CustomPPMaterial t),
             bCustomPPMaterialOutputFormat := static_cast_int8 (OutputFormat CUSTOM_PP_MATERIAL t),
             UWidgetStateAsset.OutputImageResolution := OutputImageResolution s0,
             DepthRange := DepthRangeMeters t,
             UWidgetStateAsset.OpticalFlowScale := OpticalFlowScale t,
             UWidgetStateAsset.OutputDirectory := OutputDirectory s0\<rparr>
      in emit (SaveLoadedAsset WidgetStateAsset False)
           (s0\<lparr>WidgetStateAssetObject := Some WidgetStateAsset\<rparr>))"

subsection \<open>\<open>LoadWidgetOptionStates\<close> (lines 686-725)\<close>

definition LoadWidgetOptionStates :: "'r deps \<Rightarrow> 'r editor \<Rightarrow> 'r editor" where
  "LoadWidgetOptionStates d s =
     (case WidgetStateAssetObject s of
        None \<Rightarrow> s
      | Some WidgetStateAsset \<Rightarrow>
          s\<lparr>SelectedSequencesFolder := [],
            SequenceRendererTargets :=
              SetOpticalFlowScale (UWidgetStateAsset.OpticalFlowScale WidgetStateAsset)
              (SetDepthRangeMeters (DepthRange WidgetStateAsset)
              (SetOutputFormat CUSTOM_PP_MATERIAL
                 (static_cast_EImageFormat (bCustomPPMaterialOutputFormat WidgetStateAsset))
              (SetCustomPPMaterialAssetData
                 (FAssetData_of_UObject (TryLoad d (CustomPPMaterialAssetPath WidgetStateAsset)))
              (SetOutputFormat SEMANTIC_IMAGE
                 (static_cast_EImageFormat (bSemanticImagesOutputFormat WidgetStateAsset))
              (SetOutputFormat OPTICAL_FLOW_IMAGE
                 (static_cast_EImageFormat (bOpticalFlowImagesOutputFormat WidgetStateAsset))
              (SetOutputFormat NORMAL_IMAGE
                 (static_cast_EImageFormat (bNormalImagesOutputFormat WidgetStateAsset))
              (SetOutputFormat DEPTH_IMAGE
                 (static_cast_EImageFormat (bDepthImagesOutputFormat WidgetStateAsset))
              (SetOutputFormat COLOR_IMAGE
                 (static_cast_EImageFormat (bColorImagesOutputFormat WidgetStateAsset))
              (SetSelectedTarget SEMANTIC_IMAGE (bSemanticImagesSelected WidgetStateAsset)
              (SetSelectedTarget OPTICAL_FLOW_IMAGE (bOpticalFlowImagesSelected WidgetStateAsset)
              (SetSelectedTarget NORMAL_IMAGE (bNormalImagesSelected WidgetStateAsset)
              (SetSelectedTarget DEPTH_IMAGE (bDepthImagesSelected WidgetStateAsset)
              (SetSelectedTarget COLOR_IMAGE (bColorImagesSelected WidgetStateAsset)
              (SetExportCameraPoses (bCameraPosesSelected WidgetStateAsset)
                 (SequenceRendererTargets s))))))))))))))),
            OutputImageResolution := UWidgetStateAsset.OutputImageResolution WidgetStateAsset,
            OutputDirectory := UWidgetStateAsset.OutputDirectory WidgetStateAsset\<rparr>)"

subsection \<open>\<open>RenderCurrentSequence\<close> (lines 560-592)\<close>

definition RenderCurrentSequence :: "'r deps \<Rightarrow> 'r editor \<Rightarrow> fault + 'r editor" where
  "RenderCurrentSequence d s =
     (if CurrentSequenceIndex s < 0 \<or> CurrentSequenceIndex s \<ge> int (length (SequencesToRender s))
      then Inr s
      else
        let CurrentSequence = SequencesToRender s ! nat (CurrentSequenceIndex s);
            SequenceName = ToString (AssetName CurrentSequence);
            SequenceOutputDir = PathAppend d (BaseOutputDirectory s) SequenceName
        in case SequenceRenderer s of
             None \<Rightarrow> Inl NullPointerDereference
           | Some r \<Rightarrow>
               let (started, r') =
                     RenderSequence d r CurrentSequence (SequenceRendererTargets s)
                       (OutputImageResolution s) SequenceOutputDir;
                   s1 = emit (RenderSequenceCall CurrentSequence (SequenceRendererTargets s)
                                (OutputImageResolution s) SequenceOutputDir)
                          (s\<lparr>SequenceRenderer := Some r'\<rparr>)
               in if \<not> started
                  then Inr ((emit (MessageDialog_Open Ok
                                    (FromString (GetErrorMessage d r'))
                                    (LOCTEXT ''StartRenderingErrorMessageBoxTitle'' ''Could not start rendering''))
                                  s1)
                            \<lparr>SequencesToRender := [], CurrentSequenceIndex := - 1\<rparr>)
                  else Inr s1)"

subsection \<open>\<open>OnRenderImagesClicked\<close> (lines 502-558)\<close>

text \<open>The filter loop of lines 529-535; \<open>queue\<close> is \<open>SequencesToRender\<close>.\<close>

fun AddLevelSequences :: "FAssetData list \<Rightarrow> FAssetData list \<Rightarrow> FAssetData list" where
  "AddLevelSequences [] queue = queue"
| "AddLevelSequences (AssetData # rest) queue =
     AddLevelSequences rest
       (if GetAssetName (AssetClassPath AssetData) = FName ''LevelSequence''
        then queue @ [AssetData] else queue)"

definition OnRenderImagesClicked :: "'r deps \<Rightarrow> 'r editor \<Rightarrow> fault + 'r editor" where
  "OnRenderImagesClicked d s =
     (let s1 = s\<lparr>SequencesToRender := [], CurrentSequenceIndex := - 1\<rparr>
      in case TryConvertFilenameToLongPackageName d (SelectedSequencesFolder s1) of
           None \<Rightarrow>
             Inr (emit (MessageDialog_Open Ok
                          (LOCTEXT ''InvalidFolderMessage'' ''Selected folder is not a valid content folder.'')
                          (LOCTEXT ''InvalidFolderTitle'' ''Invalid Folder''))
                    s1)
         | Some PackagePath \<Rightarrow>
             let AssetDataList = GetAssetsByPath d (FName PackagePath) False;
                 s2 = s1\<lparr>SequencesToRender := AddLevelSequences AssetDataList (SequencesToRender s1)\<rparr>
             in if length (SequencesToRender s2) = 0
                then Inr (emit (MessageDialog_Open Ok
                                  (LOCTEXT ''NoSequencesFoundMessage''
                                     ''No level sequence assets found in the selected folder.'')
                                  (LOCTEXT ''NoSequencesFoundTitle'' ''No Sequences Found''))
                            s2)
                else
                  let s3 = s2\<lparr>BaseOutputDirectory := OutputDirectory s2\<rparr>;
                      s4 = s3\<lparr>CurrentSequenceIndex := 0\<rparr>
                  in case RenderCurrentSequence d s4 of
                       Inl f \<Rightarrow> Inl f
                     | Inr s5 \<Rightarrow> Inr (SaveWidgetOptionStates d s5))"

subsection \<open>\<open>OnRenderingFinished\<close> (lines 616-684)\<close>

definition OnRenderingFinished :: "'r deps \<Rightarrow> bool \<Rightarrow> 'r editor \<Rightarrow> fault + 'r editor" where
  "OnRenderingFinished d bSuccess s =
     (if bSuccess then
        (if CurrentSequenceIndex s \<ge> 0 \<and> CurrentSequenceIndex s < int (length (SequencesToRender s))
         then
           let s1 = s\<lparr>CurrentSequenceIndex := CurrentSequenceIndex s + 1\<rparr>
           in if CurrentSequenceIndex s1 < int (length (SequencesToRender s1))
              then RenderCurrentSequence d
                     (emit PlatformProcess_Sleep_1s (emit (ForceGarbageCollection True) s1))
              else Inr ((emit (MessageDialog_Open Ok
                                 (Format (LOCTEXT ''BatchRenderingCompleteMessage''
                                            ''Successfully rendered {0} sequences.'')
                                    [AsNumber (int (length (SequencesToRender s1)))])
                                 (LOCTEXT ''BatchRenderingCompleteTitle'' ''Batch Rendering Complete''))
                              s1)
                        \<lparr>SequencesToRender := [], CurrentSequenceIndex := - 1\<rparr>)
         else Inr (emit (MessageDialog_Open Ok
                           (LOCTEXT ''SuccessfulRenderingMessageBoxText'' ''Rendering finished successfully'')
                           (LOCTEXT ''SuccessfulRenderingMessageBoxTitle'' ''Successful rendering''))
                     s))
      else
        (case SequenceRenderer s of
           None \<Rightarrow> Inl NullPointerDereference
         | Some r \<Rightarrow>
             Inr ((emit (MessageDialog_Open Ok
                           (FromString
                              (''Failed on sequence: '' @
                               (if CurrentSequenceIndex s \<ge> 0 \<and>
                                   CurrentSequenceIndex s < int (length (SequencesToRender s))
                                then ToString (AssetName (SequencesToRender s ! nat (CurrentSequenceIndex s)))
                                else ''Unknown'') @
                               [CHR 0x0A, CHR 0x0A] @ ''Error: '' @ GetErrorMessage d r))
                           (LOCTEXT ''RenderingErrorMessageBoxTitle'' ''Rendering failed''))
                        s)
                  \<lparr>SequencesToRender := [], CurrentSequenceIndex := - 1\<rparr>)))"

subsection \<open>Events\<close>

text \<open>
  The button of lines 366-374 calls \<open>OnRenderImagesClicked\<close> when it is enabled, and a
  disabled button ignores the click. The renderer reports the end of a render through the
  delegate registered in the constructor (line 47).
\<close>

datatype event = RenderImagesButtonClicked | RenderingFinished bool

fun handle :: "'r deps \<Rightarrow> event \<Rightarrow> 'r editor \<Rightarrow> fault + 'r editor" where
  "handle d RenderImagesButtonClicked s =
     (if GetIsRenderImagesEnabled d s then OnRenderImagesClicked d s else Inr s)"
| "handle d (RenderingFinished bSuccess) s = OnRenderingFinished d bSuccess s"

fun run :: "'r deps \<Rightarrow> event list \<Rightarrow> 'r editor \<Rightarrow> fault + 'r editor" where
  "run d [] s = Inr s"
| "run d (e # es) s = (case handle d e s of Inl f \<Rightarrow> Inl f | Inr s' \<Rightarrow> run d es s')"

text \<open>The assets handed to \<open>RenderSequence\<close>, in call order.\<close>

fun rendered :: "effect list \<Rightarrow> FAssetData list" where
  "rendered [] = []"
| "rendered (RenderSequenceCall a t r p # es) = a # rendered es"
| "rendered (e # es) = rendered es"

section \<open>Notions used to state the properties\<close>

text \<open>A batch is in progress when the index points into the queue.\<close>

definition active :: "'r editor \<Rightarrow> bool" where
  "active s \<longleftrightarrow> 0 \<le> CurrentSequenceIndex s \<and> CurrentSequenceIndex s < int (length (SequencesToRender s))"

text \<open>
  In a list of effects, every \<open>RenderSequence\<close> call comes directly after a forced garbage
  collection and the one-second sleep.
\<close>

fun collected_before_each_render :: "effect list \<Rightarrow> bool" where
  "collected_before_each_render [] = True"
| "collected_before_each_render
     (ForceGarbageCollection True # PlatformProcess_Sleep_1s # RenderSequenceCall a t r p # es) =
     collected_before_each_render es"
| "collected_before_each_render (RenderSequenceCall a t r p # es) = False"
| "collected_before_each_render (e # es) = collected_before_each_render es"

text \<open>
  All target-carrying widgets of the tab, in slot order: the generated target slots followed by
  the custom post-process material slot.
\<close>

definition TargetWidgets :: "widget list" where
  "TargetWidgets = concat (TargetsScrollBoxes @ [CustomPPMaterialSlot])"

text \<open>The target kinds that have a check box, and the target kinds that any widget carries.\<close>

fun CheckBoxTargets :: "widget list \<Rightarrow> TargetType list" where
  "CheckBoxTargets [] = []"
| "CheckBoxTargets (SCheckBox T txt # ws) = T # CheckBoxTargets ws"
| "CheckBoxTargets (w # ws) = CheckBoxTargets ws"

fun ExposedTargets :: "widget list \<Rightarrow> TargetType list" where
  "ExposedTargets [] = []"
| "ExposedTargets (SCheckBox T txt # ws) = T # ExposedTargets ws"
| "ExposedTargets (SComboBox_OutputFormat T # ws) = T # ExposedTargets ws"
| "ExposedTargets (w # ws) = ExposedTargets ws"

section \<open>An example editor\<close>

text \<open>
  A concrete configuration on which the handlers can be evaluated. The renderer state is a
  flag "is rendering"; this renderer refuses to start the sequence named \<open>Broken\<close> and
  starts every other one. The content folder \<open>/Game/Seqs\<close> holds two level sequences with a
  material between them, \<open>/Game/Bad\<close> holds the broken sequence. \<open>willing_deps\<close> is the
  same engine with a renderer that starts every sequence, \<open>offline_deps\<close> the same engine
  when no object can be loaded.
\<close>

definition LevelSequenceClass :: FTopLevelAssetPath where
  "LevelSequenceClass = FTopLevelAssetPath (FName ''/Script/LevelSequence'') (FName ''LevelSequence'')"

definition seqA :: FAssetData where
  "seqA = \<lparr>ObjectPath = FName ''/Game/Seqs/A.A'', AssetName = FName ''A'',
            AssetClassPath = LevelSequenceClass\<rparr>"

definition seqB :: FAssetData where
  "seqB = \<lparr>ObjectPath = FName ''/Game/Seqs/B.B'', AssetName = FName ''B'',
            AssetClassPath = LevelSequenceClass\<rparr>"

definition seqBroken :: FAssetData where
  "seqBroken = \<lparr>ObjectPath = FName ''/Game/Bad/Broken.Broken'', AssetName = FName ''Broken'',
                 AssetClassPath = LevelSequenceClass\<rparr>"

definition matM :: FAssetData where
  "matM = \<lparr>ObjectPath = FName ''/Game/Seqs/M.M'', AssetName = FName ''M'',
            AssetClassPath = FTopLevelAssetPath (FName ''/Script/Engine'') (FName ''Material'')\<rparr>"

definition example_targets :: FRendererTargetOptions where
  "example_targets =
     \<lparr>bExportCameraPoses = True,
      SelectedTargets = (\<lambda>T. T = COLOR_IMAGE \<or> T = DEPTH_IMAGE),
      OutputFormats = (\<lambda>T. if T = DEPTH_IMAGE then EImageFormat 5 else EImageFormat 1),
      CustomPPMaterialAssetData = matM,
      DepthRangeMetersValue = 0x42C80000,
      OpticalFlowScaleValue = 0x3F800000\<rparr>"

definition example_asset :: UWidgetStateAsset where
  "example_asset =
     \<lparr>LevelSequenceAssetPath = FSoftObjectPath NAME_None,
      bCameraPosesSelected = False, bColorImagesSelected = False, bDepthImagesSelected = False,
      bNormalImagesSelected = False, bOpticalFlowImagesSelected = False, bSemanticImagesSelected = False,
      bColorImagesOutputFormat = 0, bDepthImagesOutputFormat = 0, bNormalImagesOutputFormat = 0,
      bOpticalFlowImagesOutputFormat = 0, bSemanticImagesOutputFormat = 0,
      CustomPPMaterialAssetPath = FSoftObjectPath NAME_None, bCustomPPMaterialOutputFormat = 0,
      OutputImageResolution = FIntPoint 1920 1080, DepthRange = 0, OpticalFlowScale = 0,
      OutputDirectory = []\<rparr>"

definition example_deps :: "bool deps" where
  "example_deps =
     \<lparr>TryConvertFilenameToLongPackageName =
        (\<lambda>f. if f = ''C:/Project/Content/Seqs'' then Some ''/Game/Seqs''
             else if f = ''C:/Project/Content/Bad'' then Some ''/Game/Bad'' else None),
      GetAssetsByPath =
        (\<lambda>p recursive. if p = FName ''/Game/Seqs'' then [seqA, matM, seqB]
                       else if p = FName ''/Game/Bad'' then [seqBroken, seqA] else []),
      PathAppend = (\<lambda>a b. a @ ''/'' @ b),
      RenderSequence = (\<lambda>r a t res dir. if AssetName a = FName ''Broken'' then (False, False) else (True, True)),
      GetErrorMessage = (\<lambda>r. ''Could not load the sequence''),
      IsRendering = (\<lambda>r. r),
      AnyOptionSelected = (\<lambda>t. bExportCameraPoses t \<or> list_ex (SelectedTargets t)
         [COLOR_IMAGE, DEPTH_IMAGE, NORMAL_IMAGE, OPTICAL_FLOW_IMAGE, SEMANTIC_IMAGE, CUSTOM_PP_MATERIAL]),
      TryLoad = (\<lambda>p. if p = FSoftObjectPath (FName ''/Game/Seqs/M.M'') then Some matM else None),
      NewObject_UWidgetStateAsset = example_asset,
      NewObject_USequenceRenderer = False,
      DefaultRenderingOutputPath = ''C:/Project/Saved/Rendering'',
      FRendererTargetOptions_ctor = example_targets\<rparr>"

definition example_editor :: "bool editor" where
  "example_editor =
     \<lparr>SelectedSequencesFolder = ''C:/Project/Content/Seqs'',
      SequenceRendererTargets = example_targets,
      OutputImageResolution = FIntPoint 1280 720,
      OutputDirectory = ''D:/Out'',
      BaseOutputDirectory = [],
      SequencesToRender = [],
      CurrentSequenceIndex = - 1,
      SequenceRenderer = Some False,
      WidgetStateAssetObject = None,
      effects = []\<rparr>"

definition willing_deps :: "bool deps" where
  "willing_deps = example_deps\<lparr>RenderSequence := (\<lambda>r a t res dir. (True, True))\<rparr>"

definition offline_deps :: "bool deps" where
  "offline_deps = example_deps\<lparr>TryLoad := (\<lambda>p. None)\<rparr>"

text \<open>The example editor in the middle of a batch, at the start of a batch whose first
  sequence is the broken one, and with a stored widget state asset.\<close>

definition example_running :: "bool editor" where
  "example_running =
     example_editor\<lparr>BaseOutputDirectory := ''D:/Out'', SequencesToRender := [seqA, seqB],
                    CurrentSequenceIndex := 0, SequenceRenderer := Some True\<rparr>"

definition example_broken :: "bool editor" where
  "example_broken =
     example_editor\<lparr>BaseOutputDirectory := ''D:/Out'', SequencesToRender := [seqBroken, seqA],
                    CurrentSequenceIndex := 0\<rparr>"

definition example_stored :: "bool editor" where
  "example_stored = example_editor\<lparr>WidgetStateAssetObject := Some example_asset\<rparr>"

lemmas example_defs =
  example_editor_def example_deps_def example_targets_def example_asset_def
  seqA_def seqB_def seqBroken_def matM_def LevelSequenceClass_def

lemmas example_state_defs = example_running_def example_broken_def offline_deps_def

section \<open>Basic facts\<close>

lemma rendered_append: "rendered (xs @ ys) = rendered xs @ rendered ys"
  by (induction xs rule: rendered.induct) simp_all

lemma AddLevelSequences_filter:
  "AddLevelSequences as q = q @ filter (\<lambda>a. GetAssetName (AssetClassPath a) = FName ''LevelSequence'') as"
  by (induction as arbitrary: q) simp_all

lemma RenderCurrentSequence_inactive:
  "\<not> active s \<Longrightarrow> RenderCurrentSequence d s = Inr s"
  by (auto simp: RenderCurrentSequence_def active_def)

lemma RenderCurrentSequence_active:
  assumes "active s" "SequenceRenderer s = Some r"
    and "RenderSequence d r (SequencesToRender s ! nat (CurrentSequenceIndex s)) (SequenceRendererTargets s)
           (OutputImageResolution s)
           (PathAppend d (BaseOutputDirectory s) (ToString (AssetName (SequencesToRender s ! nat (CurrentSequenceIndex s))))) = (started, r')"
  shows "RenderCurrentSequence d s =
     Inr (if started
          then s\<lparr>SequenceRenderer := Some r',
                 effects := effects s @
                   [RenderSequenceCall (SequencesToRender s ! nat (CurrentSequenceIndex s)) (SequenceRendererTargets s)
                      (OutputImageResolution s)
                      (PathAppend d (BaseOutputDirectory s) (ToString (AssetName (SequencesToRender s ! nat (CurrentSequenceIndex s)))))]\<rparr>
          else s\<lparr>SequencesToRender := [], CurrentSequenceIndex := - 1, SequenceRenderer := Some r',
                 effects := effects s @
                   [RenderSequenceCall (SequencesToRender s ! nat (CurrentSequenceIndex s)) (SequenceRendererTargets s)
                      (OutputImageResolution s)
                      (PathAppend d (BaseOutputDirectory s) (ToString (AssetName (SequencesToRender s ! nat (CurrentSequenceIndex s))))),
                    MessageDialog_Open Ok (FromString (GetErrorMessage d r'))
                      (LOCTEXT ''StartRenderingErrorMessageBoxTitle'' ''Could not start rendering'')]\<rparr>)"
  using assms by (simp add: RenderCurrentSequence_def active_def emit_def Let_def)

lemma SaveWidgetOptionStates_frame:
  "SequencesToRender (SaveWidgetOptionStates d s) = SequencesToRender s"
  "CurrentSequenceIndex (SaveWidgetOptionStates d s) = CurrentSequenceIndex s"
  "SequenceRenderer (SaveWidgetOptionStates d s) = SequenceRenderer s"
  "BaseOutputDirectory (SaveWidgetOptionStates d s) = BaseOutputDirectory s"
  "rendered (effects (SaveWidgetOptionStates d s)) = rendered (effects s)"
  by (simp_all add: SaveWidgetOptionStates_def emit_def rendered_append Let_def split: option.split)

lemma OnRenderImagesClicked_start:
  assumes "TryConvertFilenameToLongPackageName d (SelectedSequencesFolder s) = Some P"
    and "q = filter (\<lambda>a. GetAssetName (AssetClassPath a) = FName ''LevelSequence'')
               (GetAssetsByPath d (FName P) False)"
    and "q \<noteq> []"
  shows "OnRenderImagesClicked d s =
     (case RenderCurrentSequence d
             (s\<lparr>SequencesToRender := q, BaseOutputDirectory := OutputDirectory s,
                CurrentSequenceIndex := 0\<rparr>) of
        Inl f \<Rightarrow> Inl f
      | Inr s5 \<Rightarrow> Inr (SaveWidgetOptionStates d s5))"
  using assms by (simp add: OnRenderImagesClicked_def AddLevelSequences_filter Let_def)

lemma OnRenderImagesClicked_first:
  assumes "TryConvertFilenameToLongPackageName d (SelectedSequencesFolder s) = Some P"
    and "q = filter (\<lambda>a. GetAssetName (AssetClassPath a) = FName ''LevelSequence'')
               (GetAssetsByPath d (FName P) False)"
    and "q \<noteq> []"
    and "SequenceRenderer s \<noteq> None"
  shows "\<exists>s1. OnRenderImagesClicked d s = Inr s1 \<and> SequenceRenderer s1 \<noteq> None \<and>
           rendered (effects s1) = rendered (effects s) @ [q ! 0] \<and>
           (\<not> active s1 \<or> (SequencesToRender s1 = q \<and> CurrentSequenceIndex s1 = 0))"
proof -
  from assms(4) obtain r where r: "SequenceRenderer s = Some r" by auto
  define s4 where "s4 = s\<lparr>SequencesToRender := q, BaseOutputDirectory := OutputDirectory s,
                CurrentSequenceIndex := 0\<rparr>"
  have act: "active s4" and r4: "SequenceRenderer s4 = Some r"
    using assms(3) r by (simp_all add: s4_def active_def)
  obtain started r' where rs:
      "RenderSequence d r (SequencesToRender s4 ! nat (CurrentSequenceIndex s4)) (SequenceRendererTargets s4)
           (OutputImageResolution s4)
           (PathAppend d (BaseOutputDirectory s4)
              (ToString (AssetName (SequencesToRender s4 ! nat (CurrentSequenceIndex s4))))) = (started, r')"
    by (cases "RenderSequence d r (SequencesToRender s4 ! nat (CurrentSequenceIndex s4)) (SequenceRendererTargets s4)
           (OutputImageResolution s4)
           (PathAppend d (BaseOutputDirectory s4)
              (ToString (AssetName (SequencesToRender s4 ! nat (CurrentSequenceIndex s4)))))") auto
  have click: "OnRenderImagesClicked d s =
     (case RenderCurrentSequence d s4 of Inl f \<Rightarrow> Inl f | Inr s5 \<Rightarrow> Inr (SaveWidgetOptionStates d s5))"
    unfolding s4_def by (rule OnRenderImagesClicked_start [OF assms(1-3)])
  show ?thesis
    unfolding click RenderCurrentSequence_active [OF act r4 rs]
    by (cases started)
       (simp_all add: SaveWidgetOptionStates_frame active_def rendered_append s4_def)
qed

lemma OnRenderImagesClicked_started:
  assumes "TryConvertFilenameToLongPackageName d (SelectedSequencesFolder s) = Some P"
    and "q = filter (\<lambda>a. GetAssetName (AssetClassPath a) = FName ''LevelSequence'')
               (GetAssetsByPath d (FName P) False)"
    and "q \<noteq> []"
    and "SequenceRenderer s = Some r"
    and "fst (RenderSequence d r (q ! 0) (SequenceRendererTargets s) (OutputImageResolution s)
                 (PathAppend d (OutputDirectory s) (ToString (AssetName (q ! 0)))))"
  shows "\<exists>s'. OnRenderImagesClicked d s = Inr s' \<and> SequenceRenderer s' \<noteq> None \<and>
           SequencesToRender s' = q \<and> CurrentSequenceIndex s' = 0 \<and>
           rendered (effects s') = rendered (effects s) @ [q ! 0]"
  using assms(3-5) unfolding OnRenderImagesClicked_start [OF assms(1-3)]
  by (auto simp: RenderCurrentSequence_def emit_def Let_def SaveWidgetOptionStates_frame
        rendered_append split: prod.splits)

lemma SaveWidgetOptionStates_effects:
  "\<exists>new. effects (SaveWidgetOptionStates d s) = effects s @ new \<and> rendered new = []"
  by (simp add: SaveWidgetOptionStates_def emit_def Let_def split: option.split)

lemma OnRenderImagesClicked_call:
  assumes conv: "TryConvertFilenameToLongPackageName d (SelectedSequencesFolder s) = Some P"
    and q: "q = filter (\<lambda>a. GetAssetName (AssetClassPath a) = FName ''LevelSequence'')
               (GetAssetsByPath d (FName P) False)"
    and ne: "q \<noteq> []"
    and r: "SequenceRenderer s = Some r"
  shows "\<exists>s1 rest. OnRenderImagesClicked d s = Inr s1 \<and>
          effects s1 = effects s @
            RenderSequenceCall (q ! 0) (SequenceRendererTargets s) (OutputImageResolution s)
              (PathAppend d (OutputDirectory s) (ToString (AssetName (q ! 0)))) # rest \<and>
          rendered rest = []"
proof -
  define s4 where "s4 = s\<lparr>SequencesToRender := q, BaseOutputDirectory := OutputDirectory s,
                CurrentSequenceIndex := 0\<rparr>"
  have act: "active s4" and r4: "SequenceRenderer s4 = Some r"
    using ne r by (simp_all add: s4_def active_def)
  obtain started r' where rs:
      "RenderSequence d r (SequencesToRender s4 ! nat (CurrentSequenceIndex s4)) (SequenceRendererTargets s4)
           (OutputImageResolution s4)
           (PathAppend d (BaseOutputDirectory s4)
              (ToString (AssetName (SequencesToRender s4 ! nat (CurrentSequenceIndex s4))))) = (started, r')"
    by (cases "RenderSequence d r (SequencesToRender s4 ! nat (CurrentSequenceIndex s4)) (SequenceRendererTargets s4)
           (OutputImageResolution s4)
           (PathAppend d (BaseOutputDirectory s4)
              (ToString (AssetName (SequencesToRender s4 ! nat (CurrentSequenceIndex s4)))))") auto
  have click: "OnRenderImagesClicked d s =
     (case RenderCurrentSequence d s4 of Inl f \<Rightarrow> Inl f | Inr s5 \<Rightarrow> Inr (SaveWidgetOptionStates d s5))"
    unfolding s4_def by (rule OnRenderImagesClicked_start [OF conv q ne])
  obtain s5 where s5: "RenderCurrentSequence d s4 = Inr s5"
    and e5: "\<exists>rest. effects s5 = effects s @
            RenderSequenceCall (q ! 0) (SequenceRendererTargets s) (OutputImageResolution s)
              (PathAppend d (OutputDirectory s) (ToString (AssetName (q ! 0)))) # rest \<and>
          rendered rest = []"
    unfolding RenderCurrentSequence_active [OF act r4 rs]
    by (cases started) (simp_all add: s4_def)
  from e5 obtain rest where rest: "effects s5 = effects s @
            RenderSequenceCall (q ! 0) (SequenceRendererTargets s) (OutputImageResolution s)
              (PathAppend d (OutputDirectory s) (ToString (AssetName (q ! 0)))) # rest"
    "rendered rest = []" by blast
  from SaveWidgetOptionStates_effects [of d s5]
  obtain new where new: "effects (SaveWidgetOptionStates d s5) = effects s5 @ new" "rendered new = []"
    by blast
  have "OnRenderImagesClicked d s = Inr (SaveWidgetOptionStates d s5)"
    using click s5 by simp
  moreover have "effects (SaveWidgetOptionStates d s5) = effects s @
            RenderSequenceCall (q ! 0) (SequenceRendererTargets s) (OutputImageResolution s)
              (PathAppend d (OutputDirectory s) (ToString (AssetName (q ! 0)))) # (rest @ new)"
    using rest new by simp
  moreover have "rendered (rest @ new) = []"
    using rest new by (simp add: rendered_append)
  ultimately show ?thesis by blast
qed

lemma OnRenderingFinished_call:
  assumes "active s" "CurrentSequenceIndex s + 1 < int (length (SequencesToRender s))"
    "SequenceRenderer s = Some r"
  shows "\<exists>s' rest. OnRenderingFinished d True s = Inr s' \<and>
          effects s' = effects s @ ForceGarbageCollection True # PlatformProcess_Sleep_1s #
            RenderSequenceCall (SequencesToRender s ! nat (CurrentSequenceIndex s + 1))
              (SequenceRendererTargets s) (OutputImageResolution s)
              (PathAppend d (BaseOutputDirectory s)
                 (ToString (AssetName (SequencesToRender s ! nat (CurrentSequenceIndex s + 1))))) # rest \<and>
          rendered rest = []"
proof -
  define s1 where "s1 = emit PlatformProcess_Sleep_1s (emit (ForceGarbageCollection True)
                             (s\<lparr>CurrentSequenceIndex := CurrentSequenceIndex s + 1\<rparr>))"
  have fin: "OnRenderingFinished d True s = RenderCurrentSequence d s1"
    using assms by (simp add: OnRenderingFinished_def active_def s1_def Let_def)
  have act1: "active s1" and r1: "SequenceRenderer s1 = Some r"
    using assms by (simp_all add: s1_def emit_def active_def)
  obtain started r' where rs:
      "RenderSequence d r (SequencesToRender s1 ! nat (CurrentSequenceIndex s1)) (SequenceRendererTargets s1)
           (OutputImageResolution s1)
           (PathAppend d (BaseOutputDirectory s1)
              (ToString (AssetName (SequencesToRender s1 ! nat (CurrentSequenceIndex s1))))) = (started, r')"
    by (cases "RenderSequence d r (SequencesToRender s1 ! nat (CurrentSequenceIndex s1)) (SequenceRendererTargets s1)
           (OutputImageResolution s1)
           (PathAppend d (BaseOutputDirectory s1)
              (ToString (AssetName (SequencesToRender s1 ! nat (CurrentSequenceIndex s1)))))") auto
  show ?thesis
    unfolding fin RenderCurrentSequence_active [OF act1 r1 rs]
    by (cases started) (simp_all add: s1_def emit_def)
qed

subsection \<open>The example batch\<close>

text \<open>
  Two sequences, both rendered: the click renders the first and saves the options, the first
  success callback cleans up and renders the second, the second one ends the batch.
\<close>

lemma example_batch:
  "\<exists>s. run example_deps [RenderImagesButtonClicked, RenderingFinished True, RenderingFinished True]
          example_editor = Inr s \<and>
       SequencesToRender s = [] \<and> CurrentSequenceIndex s = - 1 \<and>
       (\<exists>saved. effects s =
         [RenderSequenceCall seqA example_targets (FIntPoint 1280 720) ''D:/Out/A'',
          AssetRegistry_AddPath, CreatePackage, SaveLoadedAsset saved False,
          ForceGarbageCollection True, PlatformProcess_Sleep_1s,
          RenderSequenceCall seqB example_targets (FIntPoint 1280 720) ''D:/Out/B'',
          MessageDialog_Open Ok
            (Format (LOCTEXT ''BatchRenderingCompleteMessage'' ''Successfully rendered {0} sequences.'')
               [AsNumber 2])
            (LOCTEXT ''BatchRenderingCompleteTitle'' ''Batch Rendering Complete'')])"
  by (simp add: GetIsRenderImagesEnabled_def OnRenderImagesClicked_def RenderCurrentSequence_def
        OnRenderingFinished_def SaveWidgetOptionStates_def emit_def Let_def example_defs)

text \<open>A folder whose first sequence cannot be started: the batch ends at once.\<close>

lemma example_abort:
  "\<exists>s. run example_deps [RenderImagesButtonClicked, RenderingFinished True]
          (OnSequencesFolderChanged ''C:/Project/Content/Bad'' example_editor) = Inr s \<and>
       rendered (effects s) = [seqBroken] \<and> SequencesToRender s = [] \<and> CurrentSequenceIndex s = - 1"
  by (simp add: GetIsRenderImagesEnabled_def OnRenderImagesClicked_def RenderCurrentSequence_def
        OnRenderingFinished_def SaveWidgetOptionStates_def OnSequencesFolderChanged_def emit_def Let_def
        example_defs)

subsection \<open>Completion callbacks\<close>

lemma OnRenderingFinished_step:
  assumes "SequenceRenderer s \<noteq> None"
  shows "\<exists>s'. OnRenderingFinished d b s = Inr s' \<and> SequenceRenderer s' \<noteq> None \<and>
     (if b \<and> active s \<and> CurrentSequenceIndex s + 1 < int (length (SequencesToRender s))
      then rendered (effects s') = rendered (effects s) @ [SequencesToRender s ! nat (CurrentSequenceIndex s + 1)] \<and>
           (\<not> active s' \<or>
            (SequencesToRender s' = SequencesToRender s \<and> CurrentSequenceIndex s' = CurrentSequenceIndex s + 1))
      else rendered (effects s') = rendered (effects s) \<and> \<not> active s')"
proof -
  from assms obtain r where r: "SequenceRenderer s = Some r" by auto
  show ?thesis
  proof (cases "b \<and> active s \<and> CurrentSequenceIndex s + 1 < int (length (SequencesToRender s))")
    case True
    define s1 where "s1 = emit PlatformProcess_Sleep_1s (emit (ForceGarbageCollection True)
                             (s\<lparr>CurrentSequenceIndex := CurrentSequenceIndex s + 1\<rparr>))"
    have fin: "OnRenderingFinished d b s = RenderCurrentSequence d s1"
      using True by (simp add: OnRenderingFinished_def active_def s1_def Let_def)
    have act1: "active s1" and r1: "SequenceRenderer s1 = Some r"
      and q1: "SequencesToRender s1 = SequencesToRender s"
      and i1: "CurrentSequenceIndex s1 = CurrentSequenceIndex s + 1"
      and e1: "rendered (effects s1) = rendered (effects s)"
      using True r by (simp_all add: s1_def emit_def active_def rendered_append)
    obtain started r' where rs:
      "RenderSequence d r (SequencesToRender s1 ! nat (CurrentSequenceIndex s1)) (SequenceRendererTargets s1)
           (OutputImageResolution s1)
           (PathAppend d (BaseOutputDirectory s1)
              (ToString (AssetName (SequencesToRender s1 ! nat (CurrentSequenceIndex s1))))) = (started, r')"
      by (cases "RenderSequence d r (SequencesToRender s1 ! nat (CurrentSequenceIndex s1)) (SequenceRendererTargets s1)
           (OutputImageResolution s1)
           (PathAppend d (BaseOutputDirectory s1)
              (ToString (AssetName (SequencesToRender s1 ! nat (CurrentSequenceIndex s1)))))") auto
    show ?thesis
      using True fin q1 i1 e1
      by (cases started)
         (simp_all add: RenderCurrentSequence_active [OF act1 r1 rs] rendered_append active_def)
  next
    case False
    then show ?thesis
      using r by (auto simp: OnRenderingFinished_def active_def emit_def rendered_append Let_def)
  qed
qed

lemma OnRenderingFinished_success_step:
  assumes ok: "\<And>r a t res p. fst (RenderSequence d r a t res p)"
    and r: "SequenceRenderer s \<noteq> None"
    and act: "active s"
    and more: "CurrentSequenceIndex s + 1 < int (length (SequencesToRender s))"
  shows "\<exists>s1. OnRenderingFinished d True s = Inr s1 \<and> SequenceRenderer s1 \<noteq> None \<and> active s1 \<and>
           SequencesToRender s1 = SequencesToRender s \<and>
           CurrentSequenceIndex s1 = CurrentSequenceIndex s + 1 \<and>
           rendered (effects s1) =
             rendered (effects s) @ [SequencesToRender s ! nat (CurrentSequenceIndex s + 1)]"
proof -
  have started: "st" if "RenderSequence d r a t res p = (st, r')" for r a t res p st r'
    using ok [of r a t res p] that by simp
  show ?thesis
    using r act more
    by (auto simp: OnRenderingFinished_def RenderCurrentSequence_def active_def emit_def Let_def
          rendered_append split: prod.splits dest: started)
qed

lemma run_finished_rendered:
  "SequenceRenderer s \<noteq> None \<Longrightarrow>
   \<exists>s' k. run d (map RenderingFinished bs) s = Inr s' \<and> SequenceRenderer s' \<noteq> None \<and>
     k \<le> length (takeWhile (\<lambda>b. b) bs) \<and>
     rendered (effects s') = rendered (effects s) @
       (if active s then take k (drop (nat (CurrentSequenceIndex s) + 1) (SequencesToRender s)) else [])"
proof (induction bs arbitrary: s)
  case Nil
  then show ?case by simp
next
  case (Cons b bs)
  from OnRenderingFinished_step [OF Cons.prems, of d b]
  obtain s1 where s1: "OnRenderingFinished d b s = Inr s1" "SequenceRenderer s1 \<noteq> None"
    and step: "if b \<and> active s \<and> CurrentSequenceIndex s + 1 < int (length (SequencesToRender s))
      then rendered (effects s1) = rendered (effects s) @ [SequencesToRender s ! nat (CurrentSequenceIndex s + 1)] \<and>
           (\<not> active s1 \<or>
            (SequencesToRender s1 = SequencesToRender s \<and> CurrentSequenceIndex s1 = CurrentSequenceIndex s + 1))
      else rendered (effects s1) = rendered (effects s) \<and> \<not> active s1"
    by blast
  from Cons.IH [OF s1(2)]
  obtain s' k where run1: "run d (map RenderingFinished bs) s1 = Inr s'" and r': "SequenceRenderer s' \<noteq> None"
    and k: "k \<le> length (takeWhile (\<lambda>b. b) bs)"
    and eff: "rendered (effects s') = rendered (effects s1) @
       (if active s1 then take k (drop (nat (CurrentSequenceIndex s1) + 1) (SequencesToRender s1)) else [])"
    by blast
  have run: "run d (map RenderingFinished (b # bs)) s = Inr s'"
    using s1(1) run1 by simp
  show ?case
  proof (cases "b \<and> active s \<and> CurrentSequenceIndex s + 1 < int (length (SequencesToRender s))")
    case True
    let ?i = "nat (CurrentSequenceIndex s)"
    let ?q = "SequencesToRender s"
    from True have lt: "Suc ?i < length ?q" and i: "nat (CurrentSequenceIndex s + 1) = Suc ?i"
      by (auto simp: active_def)
    have dropq: "drop (Suc ?i) ?q = ?q ! Suc ?i # drop (Suc (Suc ?i)) ?q"
      using lt by (simp add: Cons_nth_drop_Suc)
    from True step have e1: "rendered (effects s1) = rendered (effects s) @ [?q ! Suc ?i]"
      and alt: "\<not> active s1 \<or> (SequencesToRender s1 = ?q \<and> CurrentSequenceIndex s1 = CurrentSequenceIndex s + 1)"
      using i by auto
    have "rendered (effects s') = rendered (effects s) @
            take (Suc (if active s1 then k else 0)) (drop (Suc ?i) ?q)"
      using eff e1 alt i dropq by auto
    moreover have "Suc (if active s1 then k else 0) \<le> length (takeWhile (\<lambda>b. b) (b # bs))"
      using k True by simp
    ultimately show ?thesis
      using run r' True by (intro exI [of _ s'] exI [of _ "Suc (if active s1 then k else 0)"]) simp
  next
    case False
    with step have "rendered (effects s1) = rendered (effects s)" "\<not> active s1" by auto
    with eff have "rendered (effects s') = rendered (effects s) @ take 0 (drop (nat (CurrentSequenceIndex s) + 1) (SequencesToRender s))"
      by simp
    then show ?thesis
      using run r' by (intro exI [of _ s'] exI [of _ 0]) simp
  qed
qed

lemma run_successes_rendered:
  assumes ok: "\<And>r a t res p. fst (RenderSequence d r a t res p)"
  shows "SequenceRenderer s \<noteq> None \<Longrightarrow> active s \<Longrightarrow>
     \<exists>s'. run d (map RenderingFinished (replicate n True)) s = Inr s' \<and>
       rendered (effects s') = rendered (effects s) @
         take n (drop (nat (CurrentSequenceIndex s) + 1) (SequencesToRender s))"
proof (induction n arbitrary: s)
  case 0
  then show ?case by simp
next
  case (Suc n)
  let ?i = "nat (CurrentSequenceIndex s)"
  let ?q = "SequencesToRender s"
  show ?case
  proof (cases "CurrentSequenceIndex s + 1 < int (length ?q)")
    case True
    from OnRenderingFinished_success_step [OF ok Suc.prems True]
    obtain s1 where s1: "OnRenderingFinished d True s = Inr s1" "SequenceRenderer s1 \<noteq> None" "active s1"
      and q1: "SequencesToRender s1 = ?q" and i1: "CurrentSequenceIndex s1 = CurrentSequenceIndex s + 1"
      and e1: "rendered (effects s1) = rendered (effects s) @ [?q ! nat (CurrentSequenceIndex s + 1)]"
      by blast
    from Suc.IH [OF s1(2,3)]
    obtain s' where run1: "run d (map RenderingFinished (replicate n True)) s1 = Inr s'"
      and e': "rendered (effects s') = rendered (effects s1) @
         take n (drop (nat (CurrentSequenceIndex s1) + 1) (SequencesToRender s1))"
      by blast
    from True Suc.prems(2) have lt: "Suc ?i < length ?q" and i: "nat (CurrentSequenceIndex s + 1) = Suc ?i"
      by (auto simp: active_def)
    have "drop (Suc ?i) ?q = ?q ! Suc ?i # drop (Suc (Suc ?i)) ?q"
      using lt by (simp add: Cons_nth_drop_Suc)
    then have "rendered (effects s') = rendered (effects s) @ take (Suc n) (drop (?i + 1) ?q)"
      using e' e1 q1 i1 i by simp
    then show ?thesis
      using s1(1) run1 by simp
  next
    case False
    from OnRenderingFinished_step [OF Suc.prems(1), of d True] False
    obtain s1 where s1: "OnRenderingFinished d True s = Inr s1" "SequenceRenderer s1 \<noteq> None"
      and e1: "rendered (effects s1) = rendered (effects s)" and idle: "\<not> active s1"
      by auto
    from run_finished_rendered [OF s1(2), of d "replicate n True"] idle
    obtain s' where run1: "run d (map RenderingFinished (replicate n True)) s1 = Inr s'"
      and e': "rendered (effects s') = rendered (effects s1)"
      by auto
    from False Suc.prems(2) have "drop (?i + 1) ?q = []"
      by (auto simp: active_def)
    then show ?thesis
      using s1(1) run1 e' e1 by simp
  qed
qed

lemma OnRenderingFinished_effects:
  assumes "SequenceRenderer s \<noteq> None"
  shows "\<exists>s' new. OnRenderingFinished d b s = Inr s' \<and> SequenceRenderer s' \<noteq> None \<and>
           effects s' = effects s @ new \<and>
           (\<forall>es. collected_before_each_render (new @ es) = collected_before_each_render es)"
  using assms
  by (auto simp: OnRenderingFinished_def RenderCurrentSequence_def emit_def Let_def
        split: prod.splits)

lemma run_finished_collected:
  "SequenceRenderer s \<noteq> None \<Longrightarrow>
   \<exists>s' new. run d (map RenderingFinished bs) s = Inr s' \<and> effects s' = effects s @ new \<and>
     collected_before_each_render new"
proof (induction bs arbitrary: s)
  case Nil
  then show ?case by simp
next
  case (Cons b bs)
  from OnRenderingFinished_effects [OF Cons.prems, of d b]
  obtain s1 new1 where s1: "OnRenderingFinished d b s = Inr s1" "SequenceRenderer s1 \<noteq> None"
    and e1: "effects s1 = effects s @ new1"
    and t1: "\<And>es. collected_before_each_render (new1 @ es) = collected_before_each_render es"
    by blast
  from Cons.IH [OF s1(2)]
  obtain s' new where "run d (map RenderingFinished bs) s1 = Inr s'" "effects s' = effects s1 @ new"
    "collected_before_each_render new"
    by blast
  with s1(1) e1 t1 [of new] show ?case
    by (intro exI [of _ s'] exI [of _ "new1 @ new"]) simp
qed

subsection \<open>Options and the stored asset\<close>

lemma accessor_simps:
  "ExportCameraPoses (SetExportCameraPoses v t) = v"
  "ExportCameraPoses (SetSelectedTarget T b t) = ExportCameraPoses t"
  "ExportCameraPoses (SetOutputFormat T f t) = ExportCameraPoses t"
  "ExportCameraPoses (SetCustomPPMaterialAssetData a t) = ExportCameraPoses t"
  "ExportCameraPoses (SetDepthRangeMeters x t) = ExportCameraPoses t"
  "ExportCameraPoses (SetOpticalFlowScale x t) = ExportCameraPoses t"
  "TargetSelected T' (SetExportCameraPoses v t) = TargetSelected T' t"
  "TargetSelected T' (SetSelectedTarget T b t) = (if T' = T then b else TargetSelected T' t)"
  "TargetSelected T' (SetOutputFormat T f t) = TargetSelected T' t"
  "TargetSelected T' (SetCustomPPMaterialAssetData a t) = TargetSelected T' t"
  "TargetSelected T' (SetDepthRangeMeters x t) = TargetSelected T' t"
  "TargetSelected T' (SetOpticalFlowScale x t) = TargetSelected T' t"
  "OutputFormat T' (SetExportCameraPoses v t) = OutputFormat T' t"
  "OutputFormat T' (SetSelectedTarget T b t) = OutputFormat T' t"
  "OutputFormat T' (SetOutputFormat T f t) = (if T' = T then f else OutputFormat T' t)"
  "OutputFormat T' (SetCustomPPMaterialAssetData a t) = OutputFormat T' t"
  "OutputFormat T' (SetDepthRangeMeters x t) = OutputFormat T' t"
  "OutputFormat T' (SetOpticalFlowScale x t) = OutputFormat T' t"
  "CustomPPMaterial (SetExportCameraPoses v t) = CustomPPMaterial t"
  "CustomPPMaterial (SetSelectedTarget T b t) = CustomPPMaterial t"
  "CustomPPMaterial (SetOutputFormat T f t) = CustomPPMaterial t"
  "CustomPPMaterial (SetCustomPPMaterialAssetData a t) = a"
  "CustomPPMaterial (SetDepthRangeMeters x t) = CustomPPMaterial t"
  "CustomPPMaterial (SetOpticalFlowScale x t) = CustomPPMaterial t"
  "DepthRangeMeters (SetExportCameraPoses v t) = DepthRangeMeters t"
  "DepthRangeMeters (SetSelectedTarget T b t) = DepthRangeMeters t"
  "DepthRangeMeters (SetOutputFormat T f t) = DepthRangeMeters t"
  "DepthRangeMeters (SetCustomPPMaterialAssetData a t) = DepthRangeMeters t"
  "DepthRangeMeters (SetDepthRangeMeters x t) = x"
  "DepthRangeMeters (SetOpticalFlowScale x t) = DepthRangeMeters t"
  "OpticalFlowScale (SetExportCameraPoses v t) = OpticalFlowScale t"
  "OpticalFlowScale (SetSelectedTarget T b t) = OpticalFlowScale t"
  "OpticalFlowScale (SetOutputFormat T f t) = OpticalFlowScale t"
  "OpticalFlowScale (SetCustomPPMaterialAssetData a t) = OpticalFlowScale t"
  "OpticalFlowScale (SetDepthRangeMeters x t) = OpticalFlowScale t"
  "OpticalFlowScale (SetOpticalFlowScale x t) = x"
  by (simp_all add: ExportCameraPoses_def SetExportCameraPoses_def TargetSelected_def SetSelectedTarget_def
        OutputFormat_def SetOutputFormat_def CustomPPMaterial_def SetCustomPPMaterialAssetData_def
        DepthRangeMeters_def SetDepthRangeMeters_def OpticalFlowScale_def SetOpticalFlowScale_def)

lemma static_cast_round_trip: "static_cast_EImageFormat (static_cast_int8 f) = f"
  by (cases f) (simp add: static_cast_EImageFormat_def)

lemma LoadWidgetOptionStates_Some:
  assumes "WidgetStateAssetObject s = Some a"
  shows "SelectedSequencesFolder (LoadWidgetOptionStates d s) = []"
    and "ExportCameraPoses (SequenceRendererTargets (LoadWidgetOptionStates d s)) = bCameraPosesSelected a"
    and "TargetSelected COLOR_IMAGE (SequenceRendererTargets (LoadWidgetOptionStates d s)) = bColorImagesSelected a"
    and "TargetSelected DEPTH_IMAGE (SequenceRendererTargets (LoadWidgetOptionStates d s)) = bDepthImagesSelected a"
    and "TargetSelected NORMAL_IMAGE (SequenceRendererTargets (LoadWidgetOptionStates d s)) = bNormalImagesSelected a"
    and "TargetSelected OPTICAL_FLOW_IMAGE (SequenceRendererTargets (LoadWidgetOptionStates d s)) = bOpticalFlowImagesSelected a"
    and "TargetSelected SEMANTIC_IMAGE (SequenceRendererTargets (LoadWidgetOptionStates d s)) = bSemanticImagesSelected a"
    and "OutputFormat COLOR_IMAGE (SequenceRendererTargets (LoadWidgetOptionStates d s)) =
           static_cast_EImageFormat (bColorImagesOutputFormat a)"
    and "OutputFormat DEPTH_IMAGE (SequenceRendererTargets (LoadWidgetOptionStates d s)) =
           static_cast_EImageFormat (bDepthImagesOutputFormat a)"
    and "OutputFormat NORMAL_IMAGE (SequenceRendererTargets (LoadWidgetOptionStates d s)) =
           static_cast_EImageFormat (bNormalImagesOutputFormat a)"
    and "OutputFormat OPTICAL_FLOW_IMAGE (SequenceRendererTargets (LoadWidgetOptionStates d s)) =
           static_cast_EImageFormat (bOpticalFlowImagesOutputFormat a)"
    and "OutputFormat SEMANTIC_IMAGE (SequenceRendererTargets (LoadWidgetOptionStates d s)) =
           static_cast_EImageFormat (bSemanticImagesOutputFormat a)"
    and "OutputFormat CUSTOM_PP_MATERIAL (SequenceRendererTargets (LoadWidgetOptionStates d s)) =
           static_cast_EImageFormat (bCustomPPMaterialOutputFormat a)"
    and "CustomPPMaterial (SequenceRendererTargets (LoadWidgetOptionStates d s)) =
           FAssetData_of_UObject (TryLoad d (CustomPPMaterialAssetPath a))"
    and "OutputImageResolution (LoadWidgetOptionStates d s) = UWidgetStateAsset.OutputImageResolution a"
    and "DepthRangeMeters (SequenceRendererTargets (LoadWidgetOptionStates d s)) = DepthRange a"
    and "OpticalFlowScale (SequenceRendererTargets (LoadWidgetOptionStates d s)) = UWidgetStateAsset.OpticalFlowScale a"
    and "OutputDirectory (LoadWidgetOptionStates d s) = UWidgetStateAsset.OutputDirectory a"
  using assms by (simp_all add: LoadWidgetOptionStates_def accessor_simps)

lemma SaveWidgetOptionStates_asset:
  "\<exists>a. WidgetStateAssetObject (SaveWidgetOptionStates d s) = Some a \<and>
     bCameraPosesSelected a = ExportCameraPoses (SequenceRendererTargets s) \<and>
     bColorImagesSelected a = TargetSelected COLOR_IMAGE (SequenceRendererTargets s) \<and>
     bDepthImagesSelected a = TargetSelected DEPTH_IMAGE (SequenceRendererTargets s) \<and>
     bNormalImagesSelected a = TargetSelected NORMAL_IMAGE (SequenceRendererTargets s) \<and>
     bOpticalFlowImagesSelected a = TargetSelected OPTICAL_FLOW_IMAGE (SequenceRendererTargets s) \<and>
     bSemanticImagesSelected a = TargetSelected SEMANTIC_IMAGE (SequenceRendererTargets s) \<and>
     bColorImagesOutputFormat a = static_cast_int8 (OutputFormat COLOR_IMAGE (SequenceRendererTargets s)) \<and>
     bDepthImagesOutputFormat a = static_cast_int8 (OutputFormat DEPTH_IMAGE (SequenceRendererTargets s)) \<and>
     bNormalImagesOutputFormat a = static_cast_int8 (OutputFormat NORMAL_IMAGE (SequenceRendererTargets s)) \<and>
     bOpticalFlowImagesOutputFormat a = static_cast_int8 (OutputFormat OPTICAL_FLOW_IMAGE (SequenceRendererTargets s)) \<and>
     bSemanticImagesOutputFormat a = static_cast_int8 (OutputFormat SEMANTIC_IMAGE (SequenceRendererTargets s)) \<and>
     bCustomPPMaterialOutputFormat a = static_cast_int8 (OutputFormat CUSTOM_PP_MATERIAL (SequenceRendererTargets s)) \<and>
     CustomPPMaterialAssetPath a = ToSoftObjectPath (CustomPPMaterial (SequenceRendererTargets s)) \<and>
     UWidgetStateAsset.OutputImageResolution a = OutputImageResolution s \<and>
     DepthRange a = DepthRangeMeters (SequenceRendererTargets s) \<and>
     UWidgetStateAsset.OpticalFlowScale a = OpticalFlowScale (SequenceRendererTargets s) \<and>
     UWidgetStateAsset.OutputDirectory a = OutputDirectory s \<and>
     LevelSequenceAssetPath a = FSoftObjectPath NAME_None"
  by (simp add: SaveWidgetOptionStates_def emit_def Let_def split: option.split)

lemma TargetWidgets_eq:
  "TargetWidgets =
     [SCheckBox COLOR_IMAGE (LOCTEXT ''ColorImagesCheckBoxText'' ''Color images''),
      SComboBox_OutputFormat COLOR_IMAGE,
      SCheckBox DEPTH_IMAGE (LOCTEXT ''DepthImagesCheckBoxText'' ''Depth images''),
      SComboBox_OutputFormat DEPTH_IMAGE,
      SCheckBox NORMAL_IMAGE (LOCTEXT ''NormalImagesCheckBoxText'' ''Normal images''),
      SComboBox_OutputFormat NORMAL_IMAGE,
      SCheckBox OPTICAL_FLOW_IMAGE (LOCTEXT ''OpticalFlowImagesCheckBoxText'' ''Optical flow images''),
      SComboBox_OutputFormat OPTICAL_FLOW_IMAGE,
      SCheckBox SEMANTIC_IMAGE (LOCTEXT ''SemanticImagesCheckBoxText'' ''Semantic images''),
      SComboBox_OutputFormat SEMANTIC_IMAGE,
      SObjectPropertyEntryBox_Material,
      SComboBox_OutputFormat CUSTOM_PP_MATERIAL]"
  by (simp add: TargetWidgets_def TargetsScrollBoxes_def TargetCheckBoxNames_def CustomPPMaterialSlot_def)

section \<open>Batch sequencing\<close>

text \<open>
  Claim C1. Batch rendering walks the discovered sequences by index, one at a time. When
  \<open>OnRenderImagesClicked\<close> finds at least one level sequence, it hands exactly the sequence at
  index 0 to the renderer. Whatever completion callbacks follow, the sequences handed to the
  renderer since the click are \<open>take k q\<close>: a prefix of the queue in queue order, so none is
  skipped and none comes out of order. The prefix is never longer than one plus the number of
  leading success callbacks, so the render of sequence \<open>i + 1\<close> needs a success callback after
  the render of sequence \<open>i\<close> was started. When the renderer starts every sequence it is
  given, \<open>n\<close> success callbacks have rendered exactly the first \<open>n + 1\<close> sequences.
\<close>

theorem batch_renders_in_index_order:
  assumes "TryConvertFilenameToLongPackageName d (SelectedSequencesFolder s) = Some P"
    and "q = filter (\<lambda>a. GetAssetName (AssetClassPath a) = FName ''LevelSequence'')
               (GetAssetsByPath d (FName P) False)"
    and "q \<noteq> []"
    and "SequenceRenderer s \<noteq> None"
  shows "\<exists>s1. OnRenderImagesClicked d s = Inr s1 \<and>
           rendered (effects s1) = rendered (effects s) @ [q ! 0] \<and>
           (\<forall>bs. \<exists>s' k. run d (map RenderingFinished bs) s1 = Inr s' \<and>
                  1 \<le> k \<and> k \<le> 1 + length (takeWhile (\<lambda>b. b) bs) \<and>
                  rendered (effects s') = rendered (effects s) @ take k q) \<and>
           ((\<forall>r a t res p. fst (RenderSequence d r a t res p)) \<longrightarrow>
            (\<forall>n. \<exists>s'. run d (map RenderingFinished (replicate n True)) s1 = Inr s' \<and>
                  rendered (effects s') = rendered (effects s) @ take (Suc n) q))"
proof -
  from OnRenderImagesClicked_first [OF assms]
  obtain s1 where click: "OnRenderImagesClicked d s = Inr s1" and r1: "SequenceRenderer s1 \<noteq> None"
    and e1: "rendered (effects s1) = rendered (effects s) @ [q ! 0]"
    and alt: "\<not> active s1 \<or> (SequencesToRender s1 = q \<and> CurrentSequenceIndex s1 = 0)"
    by blast
  have tk: "take (Suc n) q = q ! 0 # take n (drop 1 q)" for n
    using assms(3) by (cases q) simp_all
  have safety: "\<exists>s' k. run d (map RenderingFinished bs) s1 = Inr s' \<and>
                  1 \<le> k \<and> k \<le> 1 + length (takeWhile (\<lambda>b. b) bs) \<and>
                  rendered (effects s') = rendered (effects s) @ take k q" for bs
  proof -
    from run_finished_rendered [OF r1, of d bs]
    obtain s' k where run1: "run d (map RenderingFinished bs) s1 = Inr s'"
      and k: "k \<le> length (takeWhile (\<lambda>b. b) bs)"
      and eff: "rendered (effects s') = rendered (effects s1) @
         (if active s1 then take k (drop (nat (CurrentSequenceIndex s1) + 1) (SequencesToRender s1)) else [])"
      by blast
    have "rendered (effects s') = rendered (effects s) @ take (Suc (if active s1 then k else 0)) q"
      unfolding tk using eff e1 alt by auto
    then show ?thesis
      using run1 k by (intro exI [of _ s'] exI [of _ "Suc (if active s1 then k else 0)"]) simp
  qed
  have progress: "\<exists>s'. run d (map RenderingFinished (replicate n True)) s1 = Inr s' \<and>
                  rendered (effects s') = rendered (effects s) @ take (Suc n) q"
    if ok: "\<forall>r a t res p. fst (RenderSequence d r a t res p)" for n
  proof -
    from assms(4) obtain r where r: "SequenceRenderer s = Some r" by auto
    from OnRenderImagesClicked_started [OF assms(1-3) r] ok click
    have q1: "SequencesToRender s1 = q" and i1: "CurrentSequenceIndex s1 = 0"
      by auto
    then have act1: "active s1"
      using assms(3) by (simp add: active_def)
    from run_successes_rendered [of d s1 n, OF _ r1 act1] ok
    obtain s' where run1: "run d (map RenderingFinished (replicate n True)) s1 = Inr s'"
      and eff: "rendered (effects s') = rendered (effects s1) @
         take n (drop (nat (CurrentSequenceIndex s1) + 1) (SequencesToRender s1))"
      by blast
    have "rendered (effects s') = rendered (effects s) @ take (Suc n) q"
      unfolding tk using eff e1 q1 i1 by simp
    with run1 show ?thesis by blast
  qed
  from click e1 safety progress show ?thesis by blast
qed

theorem batch_renders_in_index_order_witness:
  "TryConvertFilenameToLongPackageName willing_deps (SelectedSequencesFolder example_editor) =
     Some ''/Game/Seqs'' \<and>
   filter (\<lambda>a. GetAssetName (AssetClassPath a) = FName ''LevelSequence'')
     (GetAssetsByPath willing_deps (FName ''/Game/Seqs'') False) = [seqA, seqB] \<and>
   SequenceRenderer example_editor \<noteq> None \<and>
   (\<forall>r a t res p. fst (RenderSequence willing_deps r a t res p)) \<and>
   (\<exists>s1. OnRenderImagesClicked willing_deps example_editor = Inr s1 \<and>
      rendered (effects s1) = [seqA] \<and>
      (\<forall>bs. \<exists>s' k. run willing_deps (map RenderingFinished bs) s1 = Inr s' \<and>
          1 \<le> k \<and> k \<le> 1 + length (takeWhile (\<lambda>b. b) bs) \<and>
          rendered (effects s') = take k [seqA, seqB]) \<and>
      (\<exists>s'. run willing_deps (map RenderingFinished (replicate 1 True)) s1 = Inr s' \<and>
          rendered (effects s') = [seqA, seqB]))"
proof -
  have conv: "TryConvertFilenameToLongPackageName willing_deps (SelectedSequencesFolder example_editor) =
     Some ''/Game/Seqs''"
    by (simp add: willing_deps_def example_defs)
  have q: "[seqA, seqB] = filter (\<lambda>a. GetAssetName (AssetClassPath a) = FName ''LevelSequence'')
     (GetAssetsByPath willing_deps (FName ''/Game/Seqs'') False)"
    by (simp add: willing_deps_def example_defs)
  have ne: "[seqA, seqB] \<noteq> []" by simp
  have r: "SequenceRenderer example_editor \<noteq> None"
    and e: "effects example_editor = []"
    by (simp_all add: example_editor_def)
  have ok: "\<forall>r a t res p. fst (RenderSequence willing_deps r a t res p)"
    by (simp add: willing_deps_def)
  from batch_renders_in_index_order [OF conv q ne r] ok
  obtain s1 where "OnRenderImagesClicked willing_deps example_editor = Inr s1"
    and "rendered (effects s1) = rendered (effects example_editor) @ [[seqA, seqB] ! 0]"
    and "\<forall>bs. \<exists>s' k. run willing_deps (map RenderingFinished bs) s1 = Inr s' \<and>
          1 \<le> k \<and> k \<le> 1 + length (takeWhile (\<lambda>b. b) bs) \<and>
          rendered (effects s') = rendered (effects example_editor) @ take k [seqA, seqB]"
    and "\<forall>n. \<exists>s'. run willing_deps (map RenderingFinished (replicate n True)) s1 = Inr s' \<and>
          rendered (effects s') = rendered (effects example_editor) @ take (Suc n) [seqA, seqB]"
    by blast
  then have "OnRenderImagesClicked willing_deps example_editor = Inr s1 \<and>
      rendered (effects s1) = [seqA] \<and>
      (\<forall>bs. \<exists>s' k. run willing_deps (map RenderingFinished bs) s1 = Inr s' \<and>
          1 \<le> k \<and> k \<le> 1 + length (takeWhile (\<lambda>b. b) bs) \<and>
          rendered (effects s') = take k [seqA, seqB]) \<and>
      (\<exists>s'. run willing_deps (map RenderingFinished (replicate 1 True)) s1 = Inr s' \<and>
          rendered (effects s') = [seqA, seqB])"
    using spec [of "\<lambda>n. \<exists>s'. run willing_deps (map RenderingFinished (replicate n True)) s1 = Inr s' \<and>
          rendered (effects s') = rendered (effects example_editor) @ take (Suc n) [seqA, seqB]" 1]
    by (simp add: e)
  with conv q r ok show ?thesis by (simp del: replicate.simps)
qed

text \<open>
  Claim C2. A failure aborts the batch. When \<open>RenderSequence\<close> answers \<open>false\<close> for the
  current sequence, \<open>RenderCurrentSequence\<close> shows a dialog whose text is the renderer's error
  message, empties \<open>SequencesToRender\<close> and sets \<open>CurrentSequenceIndex\<close> to \<open>-1\<close>. When
  \<open>OnRenderingFinished\<close> reports failure, it shows a dialog whose text ends with the renderer's
  error message and resets the same two members. From the reset state no completion callback
  hands another sequence to the renderer.
\<close>

theorem failure_aborts_batch:
  "(active s \<and> SequenceRenderer s = Some r \<and>
    RenderSequence d r (SequencesToRender s ! nat (CurrentSequenceIndex s)) (SequenceRendererTargets s)
      (OutputImageResolution s)
      (PathAppend d (BaseOutputDirectory s)
         (ToString (AssetName (SequencesToRender s ! nat (CurrentSequenceIndex s))))) = (False, r') \<longrightarrow>
      (\<exists>s'. RenderCurrentSequence d s = Inr s' \<and>
         SequencesToRender s' = [] \<and> CurrentSequenceIndex s' = - 1 \<and>
         effects s' = effects s @
           [RenderSequenceCall (SequencesToRender s ! nat (CurrentSequenceIndex s))
              (SequenceRendererTargets s) (OutputImageResolution s)
              (PathAppend d (BaseOutputDirectory s)
                 (ToString (AssetName (SequencesToRender s ! nat (CurrentSequenceIndex s))))),
            MessageDialog_Open Ok (FromString (GetErrorMessage d r'))
              (LOCTEXT ''StartRenderingErrorMessageBoxTitle'' ''Could not start rendering'')])) \<and>
   (SequenceRenderer s = Some r \<longrightarrow>
      (\<exists>prefix s'. OnRenderingFinished d False s = Inr s' \<and>
         SequencesToRender s' = [] \<and> CurrentSequenceIndex s' = - 1 \<and>
         effects s' = effects s @
           [MessageDialog_Open Ok (FromString (prefix @ GetErrorMessage d r))
              (LOCTEXT ''RenderingErrorMessageBoxTitle'' ''Rendering failed'')])) \<and>
   (SequencesToRender s = [] \<and> CurrentSequenceIndex s = - 1 \<and> SequenceRenderer s \<noteq> None \<longrightarrow>
      (\<forall>bs. \<exists>s'. run d (map RenderingFinished bs) s = Inr s' \<and>
         rendered (effects s') = rendered (effects s)))"
proof (intro conjI impI)
  assume a: "active s \<and> SequenceRenderer s = Some r \<and>
    RenderSequence d r (SequencesToRender s ! nat (CurrentSequenceIndex s)) (SequenceRendererTargets s)
      (OutputImageResolution s)
      (PathAppend d (BaseOutputDirectory s)
         (ToString (AssetName (SequencesToRender s ! nat (CurrentSequenceIndex s))))) = (False, r')"
  then have act: "active s" and r: "SequenceRenderer s = Some r" and rs:
    "RenderSequence d r (SequencesToRender s ! nat (CurrentSequenceIndex s)) (SequenceRendererTargets s)
      (OutputImageResolution s)
      (PathAppend d (BaseOutputDirectory s)
         (ToString (AssetName (SequencesToRender s ! nat (CurrentSequenceIndex s))))) = (False, r')"
    by simp_all
  show "\<exists>s'. RenderCurrentSequence d s = Inr s' \<and>
         SequencesToRender s' = [] \<and> CurrentSequenceIndex s' = - 1 \<and>
         effects s' = effects s @
           [RenderSequenceCall (SequencesToRender s ! nat (CurrentSequenceIndex s))
              (SequenceRendererTargets s) (OutputImageResolution s)
              (PathAppend d (BaseOutputDirectory s)
                 (ToString (AssetName (SequencesToRender s ! nat (CurrentSequenceIndex s))))),
            MessageDialog_Open Ok (FromString (GetErrorMessage d r'))
              (LOCTEXT ''StartRenderingErrorMessageBoxTitle'' ''Could not start rendering'')]"
    unfolding RenderCurrentSequence_active [OF act r rs] by simp
next
  assume r: "SequenceRenderer s = Some r"
  show "\<exists>prefix s'. OnRenderingFinished d False s = Inr s' \<and>
         SequencesToRender s' = [] \<and> CurrentSequenceIndex s' = - 1 \<and>
         effects s' = effects s @
           [MessageDialog_Open Ok (FromString (prefix @ GetErrorMessage d r))
              (LOCTEXT ''RenderingErrorMessageBoxTitle'' ''Rendering failed'')]"
    using r
    by (intro exI [of _ "''Failed on sequence: '' @
                               (if CurrentSequenceIndex s \<ge> 0 \<and>
                                   CurrentSequenceIndex s < int (length (SequencesToRender s))
                                then ToString (AssetName (SequencesToRender s ! nat (CurrentSequenceIndex s)))
                                else ''Unknown'') @
                               [CHR 0x0A, CHR 0x0A] @ ''Error: ''"])
       (simp add: OnRenderingFinished_def emit_def)
next
  assume a: "SequencesToRender s = [] \<and> CurrentSequenceIndex s = - 1 \<and> SequenceRenderer s \<noteq> None"
  then have idle: "\<not> active s" and r: "SequenceRenderer s \<noteq> None"
    by (simp_all add: active_def)
  show "\<forall>bs. \<exists>s'. run d (map RenderingFinished bs) s = Inr s' \<and>
         rendered (effects s') = rendered (effects s)"
  proof
    fix bs
    from run_finished_rendered [OF r, of d bs] idle
    show "\<exists>s'. run d (map RenderingFinished bs) s = Inr s' \<and> rendered (effects s') = rendered (effects s)"
      by auto
  qed
qed

theorem failure_aborts_batch_witness:
  "active example_broken \<and> SequenceRenderer example_broken = Some False \<and>
   RenderSequence example_deps False seqBroken example_targets (FIntPoint 1280 720) ''D:/Out/Broken'' =
     (False, False) \<and>
   (\<exists>s'. RenderCurrentSequence example_deps example_broken = Inr s' \<and>
      SequencesToRender s' = [] \<and> CurrentSequenceIndex s' = - 1 \<and>
      effects s' =
        [RenderSequenceCall seqBroken example_targets (FIntPoint 1280 720) ''D:/Out/Broken'',
         MessageDialog_Open Ok (FromString ''Could not load the sequence'')
           (LOCTEXT ''StartRenderingErrorMessageBoxTitle'' ''Could not start rendering'')]) \<and>
   (\<exists>prefix s'. OnRenderingFinished example_deps False example_broken = Inr s' \<and>
      SequencesToRender s' = [] \<and> CurrentSequenceIndex s' = - 1 \<and>
      effects s' =
        [MessageDialog_Open Ok (FromString (prefix @ ''Could not load the sequence''))
           (LOCTEXT ''RenderingErrorMessageBoxTitle'' ''Rendering failed'')]) \<and>
   SequencesToRender example_editor = [] \<and> CurrentSequenceIndex example_editor = - 1 \<and>
   SequenceRenderer example_editor \<noteq> None \<and>
   (\<forall>bs. \<exists>s'. run example_deps (map RenderingFinished bs) example_editor = Inr s' \<and>
      rendered (effects s') = [])"
  using failure_aborts_batch [where d = example_deps and s = example_broken and r = False and r' = False]
    failure_aborts_batch [where d = example_deps and s = example_editor and r = False and r' = False]
  by (simp add: example_defs example_state_defs active_def)

text \<open>
  Claim C3. Memory cleanup is forced between batch items. When a sequence finishes
  successfully and more sequences remain, \<open>OnRenderingFinished\<close> forces a garbage collection,
  sleeps, and only then calls \<open>RenderSequence\<close> for the next sequence; nothing else of that
  handler run is a collection or a render. In every other case the handler neither collects
  garbage nor renders. So in the effects of any series of completion callbacks every
  \<open>RenderSequence\<close> call comes directly after a forced collection and the sleep.
\<close>

theorem garbage_collection_between_sequences:
  "(active s \<and> CurrentSequenceIndex s + 1 < int (length (SequencesToRender s)) \<and>
    SequenceRenderer s = Some r \<longrightarrow>
      (\<exists>s' rest. OnRenderingFinished d True s = Inr s' \<and>
         effects s' = effects s @
           [ForceGarbageCollection True, PlatformProcess_Sleep_1s,
            RenderSequenceCall (SequencesToRender s ! nat (CurrentSequenceIndex s + 1))
              (SequenceRendererTargets s) (OutputImageResolution s)
              (PathAppend d (BaseOutputDirectory s)
                 (ToString (AssetName (SequencesToRender s ! nat (CurrentSequenceIndex s + 1)))))] @ rest \<and>
         rendered rest = [] \<and> ForceGarbageCollection True \<notin> set rest)) \<and>
   (\<not> (b \<and> active s \<and> CurrentSequenceIndex s + 1 < int (length (SequencesToRender s))) \<and>
    OnRenderingFinished d b s = Inr s2 \<longrightarrow>
      (\<exists>new. effects s2 = effects s @ new \<and> rendered new = [] \<and>
         ForceGarbageCollection True \<notin> set new)) \<and>
   (SequenceRenderer s \<noteq> None \<longrightarrow>
      (\<forall>bs. \<exists>s' new. run d (map RenderingFinished bs) s = Inr s' \<and>
         effects s' = effects s @ new \<and> collected_before_each_render new))"
proof (intro conjI impI allI)
  fix bs
  assume "SequenceRenderer s \<noteq> None"
  then show "\<exists>s' new. run d (map RenderingFinished bs) s = Inr s' \<and>
         effects s' = effects s @ new \<and> collected_before_each_render new"
    by (rule run_finished_collected)
next
  assume a: "active s \<and> CurrentSequenceIndex s + 1 < int (length (SequencesToRender s)) \<and>
    SequenceRenderer s = Some r"
  define s1 where "s1 = emit PlatformProcess_Sleep_1s (emit (ForceGarbageCollection True)
                             (s\<lparr>CurrentSequenceIndex := CurrentSequenceIndex s + 1\<rparr>))"
  have fin: "OnRenderingFinished d True s = RenderCurrentSequence d s1"
    using a by (simp add: OnRenderingFinished_def active_def s1_def Let_def)
  have act1: "active s1" and r1: "SequenceRenderer s1 = Some r"
    using a by (simp_all add: s1_def emit_def active_def)
  obtain started r' where rs:
      "RenderSequence d r (SequencesToRender s1 ! nat (CurrentSequenceIndex s1)) (SequenceRendererTargets s1)
           (OutputImageResolution s1)
           (PathAppend d (BaseOutputDirectory s1)
              (ToString (AssetName (SequencesToRender s1 ! nat (CurrentSequenceIndex s1))))) = (started, r')"
    by (cases "RenderSequence d r (SequencesToRender s1 ! nat (CurrentSequenceIndex s1)) (SequenceRendererTargets s1)
           (OutputImageResolution s1)
           (PathAppend d (BaseOutputDirectory s1)
              (ToString (AssetName (SequencesToRender s1 ! nat (CurrentSequenceIndex s1)))))") auto
  show "\<exists>s' rest. OnRenderingFinished d True s = Inr s' \<and>
         effects s' = effects s @
           [ForceGarbageCollection True, PlatformProcess_Sleep_1s,
            RenderSequenceCall (SequencesToRender s ! nat (CurrentSequenceIndex s + 1))
              (SequenceRendererTargets s) (OutputImageResolution s)
              (PathAppend d (BaseOutputDirectory s)
                 (ToString (AssetName (SequencesToRender s ! nat (CurrentSequenceIndex s + 1)))))] @ rest \<and>
         rendered rest = [] \<and> ForceGarbageCollection True \<notin> set rest"
    unfolding fin RenderCurrentSequence_active [OF act1 r1 rs]
    by (cases started) (simp_all add: s1_def emit_def)
next
  assume "\<not> (b \<and> active s \<and> CurrentSequenceIndex s + 1 < int (length (SequencesToRender s))) \<and>
    OnRenderingFinished d b s = Inr s2"
  then show "\<exists>new. effects s2 = effects s @ new \<and> rendered new = [] \<and>
         ForceGarbageCollection True \<notin> set new"
    by (auto simp: OnRenderingFinished_def active_def emit_def Let_def split: if_splits option.splits)
qed

theorem garbage_collection_between_sequences_witness:
  "active example_running \<and>
   CurrentSequenceIndex example_running + 1 < int (length (SequencesToRender example_running)) \<and>
   SequenceRenderer example_running = Some True \<and>
   (\<exists>s' rest. OnRenderingFinished example_deps True example_running = Inr s' \<and>
      effects s' =
        [ForceGarbageCollection True, PlatformProcess_Sleep_1s,
         RenderSequenceCall seqB example_targets (FIntPoint 1280 720) ''D:/Out/B''] @ rest \<and>
      rendered rest = [] \<and> ForceGarbageCollection True \<notin> set rest) \<and>
   \<not> (False \<and> active example_running \<and>
      CurrentSequenceIndex example_running + 1 < int (length (SequencesToRender example_running))) \<and>
   (\<exists>s2. OnRenderingFinished example_deps False example_running = Inr s2 \<and>
      (\<exists>new. effects s2 = effects example_running @ new \<and> rendered new = [] \<and>
         ForceGarbageCollection True \<notin> set new)) \<and>
   SequenceRenderer example_running \<noteq> None \<and>
   (\<forall>bs. \<exists>s' new. run example_deps (map RenderingFinished bs) example_running = Inr s' \<and>
      effects s' = effects example_running @ new \<and> collected_before_each_render new)"
proof -
  have act: "active example_running \<and>
      CurrentSequenceIndex example_running + 1 < int (length (SequencesToRender example_running)) \<and>
      SequenceRenderer example_running = Some True"
    by (simp add: example_running_def example_editor_def active_def)
  have vals: "SequencesToRender example_running ! nat (CurrentSequenceIndex example_running + 1) = seqB"
    "SequenceRendererTargets example_running = example_targets"
    "OutputImageResolution example_running = FIntPoint 1280 720"
    "PathAppend example_deps (BaseOutputDirectory example_running) (ToString (AssetName seqB)) = ''D:/Out/B''"
    "effects example_running = []"
    by (simp_all add: example_running_def example_editor_def example_deps_def seqB_def)
  from act have r: "SequenceRenderer example_running \<noteq> None" by simp
  from OnRenderingFinished_step [OF r, of example_deps False]
  obtain s2 where s2: "OnRenderingFinished example_deps False example_running = Inr s2" by blast
  note between = garbage_collection_between_sequences
            [where d = example_deps and s = example_running and r = True and b = False and ?s2.0 = s2]
  from between [THEN conjunct1] act
  have next_render: "\<exists>s' rest. OnRenderingFinished example_deps True example_running = Inr s' \<and>
      effects s' =
        [ForceGarbageCollection True, PlatformProcess_Sleep_1s,
         RenderSequenceCall seqB example_targets (FIntPoint 1280 720) ''D:/Out/B''] @ rest \<and>
      rendered rest = [] \<and> ForceGarbageCollection True \<notin> set rest"
    by (simp add: vals)
  from between [THEN conjunct2, THEN conjunct1] s2
  have failed: "\<exists>new. effects s2 = effects example_running @ new \<and> rendered new = [] \<and>
         ForceGarbageCollection True \<notin> set new"
    by simp
  from between [THEN conjunct2, THEN conjunct2] r
  have traces: "\<forall>bs. \<exists>s' new. run example_deps (map RenderingFinished bs) example_running = Inr s' \<and>
      effects s' = effects example_running @ new \<and> collected_before_each_render new"
    by blast
  from act next_render s2 failed r traces show ?thesis by simp
qed

text \<open>
  Claim C5. Discovery and queueing happen in \<open>OnRenderImagesClicked\<close> itself. For a folder
  that converts to the package path \<open>P\<close>, let \<open>q\<close> be the assets that the registry returns
  for \<open>P\<close>, asked non-recursively, whose class name is \<open>LevelSequence\<close>, in registry order.
  If \<open>q\<close> is empty, the queue stays empty and nothing is rendered. Otherwise the handler is
  \<open>RenderCurrentSequence\<close> (followed by saving the options) run on the state whose queue is
  exactly \<open>q\<close> and whose index is 0; and when the renderer starts the first sequence, the
  queue is still \<open>q\<close> when the handler returns.
\<close>

theorem discovered_sequences_are_queued:
  assumes "TryConvertFilenameToLongPackageName d (SelectedSequencesFolder s) = Some P"
    and "q = filter (\<lambda>a. GetAssetName (AssetClassPath a) = FName ''LevelSequence'')
               (GetAssetsByPath d (FName P) False)"
  shows "(q = [] \<longrightarrow>
            (\<exists>s'. OnRenderImagesClicked d s = Inr s' \<and> SequencesToRender s' = [] \<and>
               rendered (effects s') = rendered (effects s))) \<and>
         (q \<noteq> [] \<longrightarrow>
            OnRenderImagesClicked d s =
              (case RenderCurrentSequence d
                      (s\<lparr>SequencesToRender := q, BaseOutputDirectory := OutputDirectory s,
                         CurrentSequenceIndex := 0\<rparr>) of
                 Inl f \<Rightarrow> Inl f
               | Inr s5 \<Rightarrow> Inr (SaveWidgetOptionStates d s5))) \<and>
         (q \<noteq> [] \<and> SequenceRenderer s = Some r \<and>
          fst (RenderSequence d r (q ! 0) (SequenceRendererTargets s) (OutputImageResolution s)
                 (PathAppend d (OutputDirectory s) (ToString (AssetName (q ! 0))))) \<longrightarrow>
            (\<exists>s'. OnRenderImagesClicked d s = Inr s' \<and> SequencesToRender s' = q \<and>
               CurrentSequenceIndex s' = 0))"
proof (intro conjI impI)
  assume "q = []"
  then show "\<exists>s'. OnRenderImagesClicked d s = Inr s' \<and> SequencesToRender s' = [] \<and>
               rendered (effects s') = rendered (effects s)"
    using assms by (simp add: OnRenderImagesClicked_def AddLevelSequences_filter Let_def emit_def rendered_append)
next
  assume "q \<noteq> []"
  then show "OnRenderImagesClicked d s =
              (case RenderCurrentSequence d
                      (s\<lparr>SequencesToRender := q, BaseOutputDirectory := OutputDirectory s,
                         CurrentSequenceIndex := 0\<rparr>) of
                 Inl f \<Rightarrow> Inl f
               | Inr s5 \<Rightarrow> Inr (SaveWidgetOptionStates d s5))"
    by (rule OnRenderImagesClicked_start [OF assms])
next
  assume a: "q \<noteq> [] \<and> SequenceRenderer s = Some r \<and>
          fst (RenderSequence d r (q ! 0) (SequenceRendererTargets s) (OutputImageResolution s)
                 (PathAppend d (OutputDirectory s) (ToString (AssetName (q ! 0)))))"
  then have ne: "q \<noteq> []" by simp
  from a show "\<exists>s'. OnRenderImagesClicked d s = Inr s' \<and> SequencesToRender s' = q \<and>
               CurrentSequenceIndex s' = 0"
    unfolding OnRenderImagesClicked_start [OF assms ne]
    by (auto simp: RenderCurrentSequence_def emit_def Let_def SaveWidgetOptionStates_frame
          split: prod.splits)
qed

theorem discovered_sequences_are_queued_witness:
  "TryConvertFilenameToLongPackageName example_deps (SelectedSequencesFolder example_editor) =
     Some ''/Game/Seqs'' \<and>
   filter (\<lambda>a. GetAssetName (AssetClassPath a) = FName ''LevelSequence'')
     (GetAssetsByPath example_deps (FName ''/Game/Seqs'') False) = [seqA, seqB] \<and>
   SequenceRenderer example_editor = Some False \<and>
   fst (RenderSequence example_deps False seqA example_targets (FIntPoint 1280 720) ''D:/Out/A'') \<and>
   (\<exists>s'. OnRenderImagesClicked example_deps example_editor = Inr s' \<and>
      SequencesToRender s' = [seqA, seqB] \<and> CurrentSequenceIndex s' = 0)"
proof -
  have conv: "TryConvertFilenameToLongPackageName example_deps (SelectedSequencesFolder example_editor) =
     Some ''/Game/Seqs''"
    by (simp add: example_defs)
  have q: "[seqA, seqB] = filter (\<lambda>a. GetAssetName (AssetClassPath a) = FName ''LevelSequence'')
     (GetAssetsByPath example_deps (FName ''/Game/Seqs'') False)"
    by (simp add: example_defs)
  have r: "SequenceRenderer example_editor = Some False"
    by (simp add: example_defs)
  have args: "SequenceRendererTargets example_editor = example_targets"
    "OutputImageResolution example_editor = FIntPoint 1280 720"
    "PathAppend example_deps (OutputDirectory example_editor) (ToString (AssetName seqA)) = ''D:/Out/A''"
    by (simp_all add: example_editor_def example_deps_def seqA_def)
  have ok: "fst (RenderSequence example_deps False seqA example_targets (FIntPoint 1280 720) ''D:/Out/A'')"
    by (simp add: example_deps_def seqA_def)
  from discovered_sequences_are_queued [OF conv q, where r = False]
  have "[seqA, seqB] \<noteq> [] \<and> SequenceRenderer example_editor = Some False \<and>
          fst (RenderSequence example_deps False ([seqA, seqB] ! 0) (SequenceRendererTargets example_editor)
                 (OutputImageResolution example_editor)
                 (PathAppend example_deps (OutputDirectory example_editor)
                    (ToString (AssetName ([seqA, seqB] ! 0))))) \<longrightarrow>
        (\<exists>s'. OnRenderImagesClicked example_deps example_editor = Inr s' \<and>
           SequencesToRender s' = [seqA, seqB] \<and> CurrentSequenceIndex s' = 0)"
    by (elim conjE)
  with r ok args have "\<exists>s'. OnRenderImagesClicked example_deps example_editor = Inr s' \<and>
           SequencesToRender s' = [seqA, seqB] \<and> CurrentSequenceIndex s' = 0"
    by simp
  with conv q r ok show ?thesis by simp
qed

text \<open>
  Claim C6. Each item is rendered by the sequence renderer. At a valid index,
  \<open>RenderCurrentSequence\<close> makes one call of \<open>RenderSequence\<close> and no second one; the call
  takes the asset at the current index, the current target options, the current output
  resolution, and the base output directory joined with the asset's name. The base output
  directory is the output directory at the click that started the batch, and completion
  callbacks do not change it. The call that the click itself makes, for the first sequence,
  already goes to the output directory of that moment joined with the asset's name, whatever
  the base output directory was before; the call that a success callback makes for the next
  sequence goes to the base output directory joined with that asset's name.
\<close>

theorem render_current_sequence_delegates:
  "(active s \<and> SequenceRenderer s = Some r \<longrightarrow>
      (\<exists>s' rest. RenderCurrentSequence d s = Inr s' \<and>
         effects s' = effects s @
           RenderSequenceCall (SequencesToRender s ! nat (CurrentSequenceIndex s))
             (SequenceRendererTargets s) (OutputImageResolution s)
             (PathAppend d (BaseOutputDirectory s)
                (ToString (AssetName (SequencesToRender s ! nat (CurrentSequenceIndex s))))) # rest \<and>
         rendered rest = [])) \<and>
   (TryConvertFilenameToLongPackageName d (SelectedSequencesFolder s) = Some P \<and>
    filter (\<lambda>a. GetAssetName (AssetClassPath a) = FName ''LevelSequence'')
      (GetAssetsByPath d (FName P) False) \<noteq> [] \<and>
    OnRenderImagesClicked d s = Inr s1 \<longrightarrow>
      BaseOutputDirectory s1 = OutputDirectory s) \<and>
   (OnRenderingFinished d b s = Inr s2 \<longrightarrow> BaseOutputDirectory s2 = BaseOutputDirectory s) \<and>
   (TryConvertFilenameToLongPackageName d (SelectedSequencesFolder s) = Some P \<and>
    filter (\<lambda>a. GetAssetName (AssetClassPath a) = FName ''LevelSequence'')
      (GetAssetsByPath d (FName P) False) \<noteq> [] \<and>
    SequenceRenderer s = Some r \<longrightarrow>
      (\<exists>s3 rest. OnRenderImagesClicked d s = Inr s3 \<and>
         effects s3 = effects s @
           RenderSequenceCall
             (filter (\<lambda>a. GetAssetName (AssetClassPath a) = FName ''LevelSequence'')
                (GetAssetsByPath d (FName P) False) ! 0)
             (SequenceRendererTargets s) (OutputImageResolution s)
             (PathAppend d (OutputDirectory s)
                (ToString (AssetName
                   (filter (\<lambda>a. GetAssetName (AssetClassPath a) = FName ''LevelSequence'')
                      (GetAssetsByPath d (FName P) False) ! 0)))) # rest \<and>
         rendered rest = [])) \<and>
   (active s \<and> CurrentSequenceIndex s + 1 < int (length (SequencesToRender s)) \<and>
    SequenceRenderer s = Some r \<longrightarrow>
      (\<exists>s4 rest. OnRenderingFinished d True s = Inr s4 \<and>
         effects s4 = effects s @ ForceGarbageCollection True # PlatformProcess_Sleep_1s #
           RenderSequenceCall (SequencesToRender s ! nat (CurrentSequenceIndex s + 1))
             (SequenceRendererTargets s) (OutputImageResolution s)
             (PathAppend d (BaseOutputDirectory s)
                (ToString (AssetName (SequencesToRender s ! nat (CurrentSequenceIndex s + 1))))) # rest \<and>
         rendered rest = []))"
proof (intro conjI impI)
  assume a: "TryConvertFilenameToLongPackageName d (SelectedSequencesFolder s) = Some P \<and>
    filter (\<lambda>a. GetAssetName (AssetClassPath a) = FName ''LevelSequence'')
      (GetAssetsByPath d (FName P) False) \<noteq> [] \<and>
    SequenceRenderer s = Some r"
  then have conv: "TryConvertFilenameToLongPackageName d (SelectedSequencesFolder s) = Some P"
    and ne: "filter (\<lambda>a. GetAssetName (AssetClassPath a) = FName ''LevelSequence'')
      (GetAssetsByPath d (FName P) False) \<noteq> []"
    and r: "SequenceRenderer s = Some r"
    by simp_all
  show "\<exists>s3 rest. OnRenderImagesClicked d s = Inr s3 \<and>
         effects s3 = effects s @
           RenderSequenceCall
             (filter (\<lambda>a. GetAssetName (AssetClassPath a) = FName ''LevelSequence'')
                (GetAssetsByPath d (FName P) False) ! 0)
             (SequenceRendererTargets s) (OutputImageResolution s)
             (PathAppend d (OutputDirectory s)
                (ToString (AssetName
                   (filter (\<lambda>a. GetAssetName (AssetClassPath a) = FName ''LevelSequence'')
                      (GetAssetsByPath d (FName P) False) ! 0)))) # rest \<and>
         rendered rest = []"
    by (rule OnRenderImagesClicked_call [OF conv refl ne r])
next
  assume "active s \<and> CurrentSequenceIndex s + 1 < int (length (SequencesToRender s)) \<and>
    SequenceRenderer s = Some r"
  then show "\<exists>s4 rest. OnRenderingFinished d True s = Inr s4 \<and>
         effects s4 = effects s @ ForceGarbageCollection True # PlatformProcess_Sleep_1s #
           RenderSequenceCall (SequencesToRender s ! nat (CurrentSequenceIndex s + 1))
             (SequenceRendererTargets s) (OutputImageResolution s)
             (PathAppend d (BaseOutputDirectory s)
                (ToString (AssetName (SequencesToRender s ! nat (CurrentSequenceIndex s + 1))))) # rest \<and>
         rendered rest = []"
    by (intro OnRenderingFinished_call) simp_all
next
  assume a: "active s \<and> SequenceRenderer s = Some r"
  obtain started r' where rs:
      "RenderSequence d r (SequencesToRender s ! nat (CurrentSequenceIndex s)) (SequenceRendererTargets s)
           (OutputImageResolution s)
           (PathAppend d (BaseOutputDirectory s)
              (ToString (AssetName (SequencesToRender s ! nat (CurrentSequenceIndex s))))) = (started, r')"
    by (cases "RenderSequence d r (SequencesToRender s ! nat (CurrentSequenceIndex s)) (SequenceRendererTargets s)
           (OutputImageResolution s)
           (PathAppend d (BaseOutputDirectory s)
              (ToString (AssetName (SequencesToRender s ! nat (CurrentSequenceIndex s)))))") auto
  from a have act: "active s" and r: "SequenceRenderer s = Some r" by simp_all
  show "\<exists>s' rest. RenderCurrentSequence d s = Inr s' \<and>
         effects s' = effects s @
           RenderSequenceCall (SequencesToRender s ! nat (CurrentSequenceIndex s))
             (SequenceRendererTargets s) (OutputImageResolution s)
             (PathAppend d (BaseOutputDirectory s)
                (ToString (AssetName (SequencesToRender s ! nat (CurrentSequenceIndex s))))) # rest \<and>
         rendered rest = []"
    unfolding RenderCurrentSequence_active [OF act r rs] by (cases started) simp_all
next
  assume a: "TryConvertFilenameToLongPackageName d (SelectedSequencesFolder s) = Some P \<and>
    filter (\<lambda>a. GetAssetName (AssetClassPath a) = FName ''LevelSequence'')
      (GetAssetsByPath d (FName P) False) \<noteq> [] \<and>
    OnRenderImagesClicked d s = Inr s1"
  then show "BaseOutputDirectory s1 = OutputDirectory s"
    by (auto simp: OnRenderImagesClicked_def AddLevelSequences_filter Let_def RenderCurrentSequence_def
          emit_def SaveWidgetOptionStates_frame split: sum.splits option.splits if_splits prod.splits)
next
  assume "OnRenderingFinished d b s = Inr s2"
  then show "BaseOutputDirectory s2 = BaseOutputDirectory s"
    by (auto simp: OnRenderingFinished_def Let_def RenderCurrentSequence_def
          emit_def split: sum.splits option.splits if_splits prod.splits)
qed

theorem render_current_sequence_delegates_witness:
  "active example_running \<and> SequenceRenderer example_running = Some True \<and>
   (\<exists>s' rest. RenderCurrentSequence example_deps example_running = Inr s' \<and>
      effects s' = RenderSequenceCall seqA example_targets (FIntPoint 1280 720) ''D:/Out/A'' # rest \<and>
      rendered rest = []) \<and>
   TryConvertFilenameToLongPackageName example_deps (SelectedSequencesFolder example_editor) =
     Some ''/Game/Seqs'' \<and>
   filter (\<lambda>a. GetAssetName (AssetClassPath a) = FName ''LevelSequence'')
     (GetAssetsByPath example_deps (FName ''/Game/Seqs'') False) \<noteq> [] \<and>
   (\<exists>s1. OnRenderImagesClicked example_deps example_editor = Inr s1 \<and>
      BaseOutputDirectory s1 = ''D:/Out'') \<and>
   (\<exists>s2. OnRenderingFinished example_deps True example_running = Inr s2 \<and>
      BaseOutputDirectory s2 = ''D:/Out'') \<and>
   SequenceRenderer example_editor = Some False \<and>
   BaseOutputDirectory example_editor = [] \<and>
   (\<exists>s3 rest. OnRenderImagesClicked example_deps example_editor = Inr s3 \<and>
      effects s3 = RenderSequenceCall seqA example_targets (FIntPoint 1280 720) ''D:/Out/A'' # rest \<and>
      rendered rest = []) \<and>
   CurrentSequenceIndex example_running + 1 < int (length (SequencesToRender example_running)) \<and>
   (\<exists>s4 rest. OnRenderingFinished example_deps True example_running = Inr s4 \<and>
      effects s4 = ForceGarbageCollection True # PlatformProcess_Sleep_1s #
        RenderSequenceCall seqB example_targets (FIntPoint 1280 720) ''D:/Out/B'' # rest \<and>
      rendered rest = [])"
proof -
  have act: "active example_running \<and> SequenceRenderer example_running = Some True"
    by (simp add: example_running_def example_editor_def active_def)
  have more: "CurrentSequenceIndex example_running + 1 < int (length (SequencesToRender example_running))"
    by (simp add: example_running_def example_editor_def)
  have idle: "SequenceRenderer example_editor = Some False" "BaseOutputDirectory example_editor = []"
    by (simp_all add: example_editor_def)
  have first: "filter (\<lambda>a. GetAssetName (AssetClassPath a) = FName ''LevelSequence'')
     (GetAssetsByPath example_deps (FName ''/Game/Seqs'') False) ! 0 = seqA"
    by (simp add: example_defs)
  have vals': "SequenceRendererTargets example_editor = example_targets"
    "OutputImageResolution example_editor = FIntPoint 1280 720"
    "effects example_editor = []"
    "SequencesToRender example_running ! nat (CurrentSequenceIndex example_running + 1) = seqB"
    "PathAppend example_deps ''D:/Out'' (ToString (AssetName seqB)) = ''D:/Out/B''"
    by (simp_all add: example_running_def example_editor_def example_deps_def seqB_def)
  have vals: "SequencesToRender example_running ! nat (CurrentSequenceIndex example_running) = seqA"
    "SequenceRendererTargets example_running = example_targets"
    "OutputImageResolution example_running = FIntPoint 1280 720"
    "PathAppend example_deps ''D:/Out'' (ToString (AssetName seqA)) = ''D:/Out/A''"
    "effects example_running = []"
    "BaseOutputDirectory example_running = ''D:/Out''"
    "OutputDirectory example_editor = ''D:/Out''"
    by (simp_all add: example_running_def example_editor_def example_deps_def seqA_def)
  have conv: "TryConvertFilenameToLongPackageName example_deps (SelectedSequencesFolder example_editor) =
     Some ''/Game/Seqs''"
    by (simp add: example_defs)
  have q: "filter (\<lambda>a. GetAssetName (AssetClassPath a) = FName ''LevelSequence'')
     (GetAssetsByPath example_deps (FName ''/Game/Seqs'') False) \<noteq> []"
    by (simp add: example_defs)
  have r0: "SequenceRenderer example_editor \<noteq> None"
    by (simp add: example_editor_def)
  from OnRenderImagesClicked_first [OF conv refl q r0]
  obtain s1 where s1: "OnRenderImagesClicked example_deps example_editor = Inr s1" by blast
  from OnRenderingFinished_step [of example_running example_deps True] act
  obtain s2 where s2: "OnRenderingFinished example_deps True example_running = Inr s2" by auto
  note running = render_current_sequence_delegates
            [where d = example_deps and s = example_running and r = True and b = True and ?s2.0 = s2]
  from running [THEN conjunct1] act
  have call: "\<exists>s' rest. RenderCurrentSequence example_deps example_running = Inr s' \<and>
      effects s' = RenderSequenceCall seqA example_targets (FIntPoint 1280 720) ''D:/Out/A'' # rest \<and>
      rendered rest = []"
    by (simp add: vals)
  from running [THEN conjunct2, THEN conjunct2, THEN conjunct1] s2
  have kept: "BaseOutputDirectory s2 = ''D:/Out''"
    by (simp add: vals)
  from running [THEN conjunct2, THEN conjunct2, THEN conjunct2, THEN conjunct2] act more
  have next_call: "\<exists>s4 rest. OnRenderingFinished example_deps True example_running = Inr s4 \<and>
      effects s4 = ForceGarbageCollection True # PlatformProcess_Sleep_1s #
        RenderSequenceCall seqB example_targets (FIntPoint 1280 720) ''D:/Out/B'' # rest \<and>
      rendered rest = []"
    by (simp add: vals vals')
  from render_current_sequence_delegates
         [where d = example_deps and s = example_editor and P = "''/Game/Seqs''" and r = False,
          THEN conjunct2, THEN conjunct2, THEN conjunct2, THEN conjunct1] conv q idle(1)
  have first_call: "\<exists>s3 rest. OnRenderImagesClicked example_deps example_editor = Inr s3 \<and>
      effects s3 = RenderSequenceCall seqA example_targets (FIntPoint 1280 720) ''D:/Out/A'' # rest \<and>
      rendered rest = []"
    by (simp add: first vals vals')
  from render_current_sequence_delegates
         [where d = example_deps and s = example_editor and P = "''/Game/Seqs''" and ?s1.0 = s1,
          THEN conjunct2, THEN conjunct1] conv q s1
  have captured: "BaseOutputDirectory s1 = ''D:/Out''"
    by (simp add: vals)
  from act call conv q s1 captured s2 kept idle first_call more next_call show ?thesis by blast
qed

text \<open>
  Claim C7. When the last sequence of a batch finishes successfully (the incremented index
  reaches the length of the queue), \<open>OnRenderingFinished\<close> shows the "Batch Rendering
  Complete" dialog with the number of queued sequences, empties the queue and sets the index
  to \<open>-1\<close>; nothing else changes.
\<close>

theorem last_sequence_completes_batch:
  assumes "active s" and "CurrentSequenceIndex s + 1 = int (length (SequencesToRender s))"
  shows "OnRenderingFinished d True s =
     Inr (s\<lparr>SequencesToRender := [], CurrentSequenceIndex := - 1,
            effects := effects s @
              [MessageDialog_Open Ok
                 (Format (LOCTEXT ''BatchRenderingCompleteMessage'' ''Successfully rendered {0} sequences.'')
                    [AsNumber (int (length (SequencesToRender s)))])
                 (LOCTEXT ''BatchRenderingCompleteTitle'' ''Batch Rendering Complete'')]\<rparr>)"
  using assms by (simp add: OnRenderingFinished_def active_def emit_def Let_def)

theorem last_sequence_completes_batch_witness:
  "active (example_running\<lparr>CurrentSequenceIndex := 1\<rparr>) \<and>
   CurrentSequenceIndex (example_running\<lparr>CurrentSequenceIndex := 1\<rparr>) + 1 =
     int (length (SequencesToRender (example_running\<lparr>CurrentSequenceIndex := 1\<rparr>))) \<and>
   OnRenderingFinished example_deps True (example_running\<lparr>CurrentSequenceIndex := 1\<rparr>) =
     Inr (example_running
            \<lparr>SequencesToRender := [], CurrentSequenceIndex := - 1,
             effects :=
               [MessageDialog_Open Ok
                  (Format (LOCTEXT ''BatchRenderingCompleteMessage'' ''Successfully rendered {0} sequences.'')
                     [AsNumber 2])
                  (LOCTEXT ''BatchRenderingCompleteTitle'' ''Batch Rendering Complete'')]\<rparr>)"
  using last_sequence_completes_batch
          [where d = example_deps and s = "example_running\<lparr>CurrentSequenceIndex := 1\<rparr>"]
  by (simp add: example_defs example_state_defs active_def)

section \<open>The Render Images button\<close>

text \<open>
  Claim C9. \<open>GetIsRenderImagesEnabled\<close> holds exactly when the sequences folder is not
  empty, \<open>AnyOptionSelected\<close> holds of the target options, the renderer pointer is not null
  and the renderer is not rendering. In particular a click on the button while the renderer
  is rendering changes nothing and starts no render.
\<close>

theorem render_button_enabled_iff:
  "(GetIsRenderImagesEnabled d s \<longleftrightarrow>
      SelectedSequencesFolder s \<noteq> [] \<and> AnyOptionSelected d (SequenceRendererTargets s) \<and>
      (\<exists>r. SequenceRenderer s = Some r \<and> \<not> IsRendering d r)) \<and>
   (SequenceRenderer s = Some r \<and> IsRendering d r \<longrightarrow>
      handle d RenderImagesButtonClicked s = Inr s)"
  by (auto simp: GetIsRenderImagesEnabled_def split: option.splits)

theorem render_button_enabled_iff_witness:
  "SequenceRenderer example_running = Some True \<and> IsRendering example_deps True \<and>
   \<not> GetIsRenderImagesEnabled example_deps example_running \<and>
   handle example_deps RenderImagesButtonClicked example_running = Inr example_running \<and>
   GetIsRenderImagesEnabled example_deps example_editor"
proof -
  have busy: "SequenceRenderer example_running = Some True \<and> IsRendering example_deps True"
    by (simp add: example_running_def example_deps_def)
  have idle: "SelectedSequencesFolder example_editor \<noteq> [] \<and>
      AnyOptionSelected example_deps (SequenceRendererTargets example_editor) \<and>
      (\<exists>r. SequenceRenderer example_editor = Some r \<and> \<not> IsRendering example_deps r)"
    by (intro conjI exI [of _ False]) (simp_all add: example_editor_def example_deps_def example_targets_def)
  note running = render_button_enabled_iff [where d = example_deps and s = example_running and r = True]
  from running [THEN conjunct2] busy
  have ignored: "handle example_deps RenderImagesButtonClicked example_running = Inr example_running"
    by blast
  from running [THEN conjunct1] busy
  have disabled: "\<not> GetIsRenderImagesEnabled example_deps example_running"
    by auto
  from render_button_enabled_iff [where d = example_deps and s = example_editor and r = False, THEN conjunct1]
    idle
  have enabled: "GetIsRenderImagesEnabled example_deps example_editor"
    by blast
  from busy ignored disabled enabled show ?thesis by blast
qed

section \<open>Target kinds in the tab\<close>

text \<open>
  The statement of claim C8, that the target kinds the tab exposes are exactly the five image
  kinds, does not hold: the tab also carries a widget for \<open>CUSTOM_PP_MATERIAL\<close>.
\<close>

theorem selectable_targets_counterexample:
  "set (ExposedTargets TargetWidgets) \<noteq>
     {COLOR_IMAGE, DEPTH_IMAGE, NORMAL_IMAGE, OPTICAL_FLOW_IMAGE, SEMANTIC_IMAGE}"
proof
  assume "set (ExposedTargets TargetWidgets) =
     {COLOR_IMAGE, DEPTH_IMAGE, NORMAL_IMAGE, OPTICAL_FLOW_IMAGE, SEMANTIC_IMAGE}"
  moreover have "CUSTOM_PP_MATERIAL \<in> set (ExposedTargets TargetWidgets)"
    by (simp add: TargetWidgets_eq)
  ultimately show False by simp
qed

text \<open>
  Claim C8, amended. The target kinds that can be selected by a check box are exactly
  \<open>COLOR_IMAGE\<close>, \<open>DEPTH_IMAGE\<close>, \<open>NORMAL_IMAGE\<close>, \<open>OPTICAL_FLOW_IMAGE\<close> and
  \<open>SEMANTIC_IMAGE\<close>, one check box each. The tab exposes a sixth target kind,
  \<open>CUSTOM_PP_MATERIAL\<close>, through the output format combo box of the custom post-process
  material slot.
\<close>

theorem check_box_targets:
  "CheckBoxTargets TargetWidgets =
     [COLOR_IMAGE, DEPTH_IMAGE, NORMAL_IMAGE, OPTICAL_FLOW_IMAGE, SEMANTIC_IMAGE] \<and>
   set (ExposedTargets TargetWidgets) =
     {COLOR_IMAGE, DEPTH_IMAGE, NORMAL_IMAGE, OPTICAL_FLOW_IMAGE, SEMANTIC_IMAGE, CUSTOM_PP_MATERIAL}"
  by (simp add: TargetWidgets_eq)

section \<open>Saving and loading the options\<close>

text \<open>
  The statement of claim C4, that saving and then loading restores every option, does not hold
  for the custom post-process material: when the engine cannot load the saved path, loading
  clears the material.
\<close>

theorem option_round_trip_counterexample:
  "ToSoftObjectPath (CustomPPMaterial (SequenceRendererTargets
      (LoadWidgetOptionStates offline_deps (SaveWidgetOptionStates offline_deps example_editor)))) \<noteq>
   ToSoftObjectPath (CustomPPMaterial (SequenceRendererTargets example_editor))"
proof -
  let ?saved = "SaveWidgetOptionStates offline_deps example_editor"
  obtain a where a: "WidgetStateAssetObject ?saved = Some a"
    using SaveWidgetOptionStates_asset [of offline_deps example_editor] by blast
  have "CustomPPMaterial (SequenceRendererTargets (LoadWidgetOptionStates offline_deps ?saved)) =
          FAssetData_of_UObject (TryLoad offline_deps (CustomPPMaterialAssetPath a))"
    by (rule LoadWidgetOptionStates_Some(14) [OF a])
  also have "\<dots> = FAssetData_default"
    by (simp add: offline_deps_def example_deps_def FAssetData_of_UObject_def)
  finally show ?thesis
    by (simp add: ToSoftObjectPath_def FAssetData_default_def NAME_None_def CustomPPMaterial_def
          example_editor_def example_targets_def matM_def)
qed

text \<open>
  Claim C4, amended. Let a widget manager load from the asset that \<open>SaveWidgetOptionStates\<close>
  stored for state \<open>s\<close>. Then the camera-poses flag, the selected flags of the five image
  targets, the output format of every target kind (the custom post-process material's
  included), the output image resolution, the depth range, the optical flow scale and the
  output directory are those of \<open>s\<close>. The custom post-process material becomes the object
  that \<open>TryLoad\<close> returns for the saved path, or the default entry when it returns null; its
  path is the saved one whenever \<open>TryLoad\<close> returns an object at that path.
\<close>

theorem option_round_trip:
  assumes "WidgetStateAssetObject s0 = WidgetStateAssetObject (SaveWidgetOptionStates d s)"
  shows "ExportCameraPoses (SequenceRendererTargets (LoadWidgetOptionStates d s0)) =
           ExportCameraPoses (SequenceRendererTargets s) \<and>
         TargetSelected COLOR_IMAGE (SequenceRendererTargets (LoadWidgetOptionStates d s0)) =
           TargetSelected COLOR_IMAGE (SequenceRendererTargets s) \<and>
         TargetSelected DEPTH_IMAGE (SequenceRendererTargets (LoadWidgetOptionStates d s0)) =
           TargetSelected DEPTH_IMAGE (SequenceRendererTargets s) \<and>
         TargetSelected NORMAL_IMAGE (SequenceRendererTargets (LoadWidgetOptionStates d s0)) =
           TargetSelected NORMAL_IMAGE (SequenceRendererTargets s) \<and>
         TargetSelected OPTICAL_FLOW_IMAGE (SequenceRendererTargets (LoadWidgetOptionStates d s0)) =
           TargetSelected OPTICAL_FLOW_IMAGE (SequenceRendererTargets s) \<and>
         TargetSelected SEMANTIC_IMAGE (SequenceRendererTargets (LoadWidgetOptionStates d s0)) =
           TargetSelected SEMANTIC_IMAGE (SequenceRendererTargets s) \<and>
         (\<forall>T. OutputFormat T (SequenceRendererTargets (LoadWidgetOptionStates d s0)) =
                OutputFormat T (SequenceRendererTargets s)) \<and>
         OutputImageResolution (LoadWidgetOptionStates d s0) = OutputImageResolution s \<and>
         DepthRangeMeters (SequenceRendererTargets (LoadWidgetOptionStates d s0)) =
           DepthRangeMeters (SequenceRendererTargets s) \<and>
         OpticalFlowScale (SequenceRendererTargets (LoadWidgetOptionStates d s0)) =
           OpticalFlowScale (SequenceRendererTargets s) \<and>
         OutputDirectory (LoadWidgetOptionStates d s0) = OutputDirectory s \<and>
         CustomPPMaterial (SequenceRendererTargets (LoadWidgetOptionStates d s0)) =
           FAssetData_of_UObject (TryLoad d (ToSoftObjectPath (CustomPPMaterial (SequenceRendererTargets s)))) \<and>
         (\<forall>m. TryLoad d (ToSoftObjectPath (CustomPPMaterial (SequenceRendererTargets s))) = Some m \<and>
              ObjectPath m = ObjectPath (CustomPPMaterial (SequenceRendererTargets s)) \<longrightarrow>
              ToSoftObjectPath (CustomPPMaterial (SequenceRendererTargets (LoadWidgetOptionStates d s0))) =
              ToSoftObjectPath (CustomPPMaterial (SequenceRendererTargets s)))"
proof -
  from SaveWidgetOptionStates_asset [of d s] assms
  obtain a where a: "WidgetStateAssetObject s0 = Some a"
    and saved:
     "bCameraPosesSelected a = ExportCameraPoses (SequenceRendererTargets s)"
     "bColorImagesSelected a = TargetSelected COLOR_IMAGE (SequenceRendererTargets s)"
     "bDepthImagesSelected a = TargetSelected DEPTH_IMAGE (SequenceRendererTargets s)"
     "bNormalImagesSelected a = TargetSelected NORMAL_IMAGE (SequenceRendererTargets s)"
     "bOpticalFlowImagesSelected a = TargetSelected OPTICAL_FLOW_IMAGE (SequenceRendererTargets s)"
     "bSemanticImagesSelected a = TargetSelected SEMANTIC_IMAGE (SequenceRendererTargets s)"
     "bColorImagesOutputFormat a = static_cast_int8 (OutputFormat COLOR_IMAGE (SequenceRendererTargets s))"
     "bDepthImagesOutputFormat a = static_cast_int8 (OutputFormat DEPTH_IMAGE (SequenceRendererTargets s))"
     "bNormalImagesOutputFormat a = static_cast_int8 (OutputFormat NORMAL_IMAGE (SequenceRendererTargets s))"
     "bOpticalFlowImagesOutputFormat a = static_cast_int8 (OutputFormat OPTICAL_FLOW_IMAGE (SequenceRendererTargets s))"
     "bSemanticImagesOutputFormat a = static_cast_int8 (OutputFormat SEMANTIC_IMAGE (SequenceRendererTargets s))"
     "bCustomPPMaterialOutputFormat a = static_cast_int8 (OutputFormat CUSTOM_PP_MATERIAL (SequenceRendererTargets s))"
     "CustomPPMaterialAssetPath a = ToSoftObjectPath (CustomPPMaterial (SequenceRendererTargets s))"
     "UWidgetStateAsset.OutputImageResolution a = OutputImageResolution s"
     "DepthRange a = DepthRangeMeters (SequenceRendererTargets s)"
     "UWidgetStateAsset.OpticalFlowScale a = OpticalFlowScale (SequenceRendererTargets s)"
     "UWidgetStateAsset.OutputDirectory a = OutputDirectory s"
    by auto
  note loaded = LoadWidgetOptionStates_Some [OF a, of d]
  have fmt: "OutputFormat T (SequenceRendererTargets (LoadWidgetOptionStates d s0)) =
               OutputFormat T (SequenceRendererTargets s)" for T
    by (cases T) (simp_all add: loaded saved static_cast_round_trip)
  have mat: "CustomPPMaterial (SequenceRendererTargets (LoadWidgetOptionStates d s0)) =
           FAssetData_of_UObject (TryLoad d (ToSoftObjectPath (CustomPPMaterial (SequenceRendererTargets s))))"
    by (simp add: loaded saved)
  have path: "ToSoftObjectPath (CustomPPMaterial (SequenceRendererTargets (LoadWidgetOptionStates d s0))) =
              ToSoftObjectPath (CustomPPMaterial (SequenceRendererTargets s))"
    if "TryLoad d (ToSoftObjectPath (CustomPPMaterial (SequenceRendererTargets s))) = Some m \<and>
        ObjectPath m = ObjectPath (CustomPPMaterial (SequenceRendererTargets s))" for m
    using that by (simp add: mat FAssetData_of_UObject_def ToSoftObjectPath_def)
  show ?thesis
    using fmt mat path by (simp add: loaded saved)
qed

theorem option_round_trip_witness:
  "WidgetStateAssetObject
     (FWidgetManager_ctor example_deps
        (WidgetStateAssetObject (SaveWidgetOptionStates example_deps example_editor)) []) =
   WidgetStateAssetObject (SaveWidgetOptionStates example_deps example_editor) \<and>
   TryLoad example_deps (ToSoftObjectPath (CustomPPMaterial (SequenceRendererTargets example_editor))) =
     Some matM \<and>
   ObjectPath matM = ObjectPath (CustomPPMaterial (SequenceRendererTargets example_editor)) \<and>
   TargetSelected DEPTH_IMAGE (SequenceRendererTargets
     (LoadWidgetOptionStates example_deps
        (FWidgetManager_ctor example_deps
           (WidgetStateAssetObject (SaveWidgetOptionStates example_deps example_editor)) []))) \<and>
   OutputFormat DEPTH_IMAGE (SequenceRendererTargets
     (LoadWidgetOptionStates example_deps
        (FWidgetManager_ctor example_deps
           (WidgetStateAssetObject (SaveWidgetOptionStates example_deps example_editor)) []))) =
     EImageFormat 5 \<and>
   OutputDirectory
     (LoadWidgetOptionStates example_deps
        (FWidgetManager_ctor example_deps
           (WidgetStateAssetObject (SaveWidgetOptionStates example_deps example_editor)) [])) = ''D:/Out'' \<and>
   ToSoftObjectPath (CustomPPMaterial (SequenceRendererTargets
     (LoadWidgetOptionStates example_deps
        (FWidgetManager_ctor example_deps
           (WidgetStateAssetObject (SaveWidgetOptionStates example_deps example_editor)) [])))) =
     FSoftObjectPath (FName ''/Game/Seqs/M.M'')"
proof -
  let ?s0 = "FWidgetManager_ctor example_deps
        (WidgetStateAssetObject (SaveWidgetOptionStates example_deps example_editor)) []"
  have stored: "WidgetStateAssetObject ?s0 =
      WidgetStateAssetObject (SaveWidgetOptionStates example_deps example_editor)"
    by (simp add: FWidgetManager_ctor_def)
  have vals: "TargetSelected DEPTH_IMAGE (SequenceRendererTargets example_editor)"
    "OutputFormat DEPTH_IMAGE (SequenceRendererTargets example_editor) = EImageFormat 5"
    "OutputDirectory example_editor = ''D:/Out''"
    "ToSoftObjectPath (CustomPPMaterial (SequenceRendererTargets example_editor)) =
       FSoftObjectPath (FName ''/Game/Seqs/M.M'')"
    by (simp_all add: example_editor_def example_targets_def matM_def TargetSelected_def OutputFormat_def
          ToSoftObjectPath_def CustomPPMaterial_def)
  have load: "TryLoad example_deps (ToSoftObjectPath (CustomPPMaterial (SequenceRendererTargets example_editor))) =
      Some matM"
    by (simp add: vals example_deps_def)
  have path: "ObjectPath matM = ObjectPath (CustomPPMaterial (SequenceRendererTargets example_editor))"
    by (simp add: example_editor_def example_targets_def CustomPPMaterial_def)
  note round_trip = option_round_trip [OF stored]
  from round_trip
  have "TargetSelected DEPTH_IMAGE (SequenceRendererTargets (LoadWidgetOptionStates example_deps ?s0)) =
          TargetSelected DEPTH_IMAGE (SequenceRendererTargets example_editor)"
    and "OutputFormat DEPTH_IMAGE (SequenceRendererTargets (LoadWidgetOptionStates example_deps ?s0)) =
          OutputFormat DEPTH_IMAGE (SequenceRendererTargets example_editor)"
    and "OutputDirectory (LoadWidgetOptionStates example_deps ?s0) = OutputDirectory example_editor"
    by blast+
  moreover from round_trip load path
  have "ToSoftObjectPath (CustomPPMaterial (SequenceRendererTargets (LoadWidgetOptionStates example_deps ?s0))) =
          ToSoftObjectPath (CustomPPMaterial (SequenceRendererTargets example_editor))"
    by blast
  ultimately show ?thesis
    using stored load path by (simp add: vals)
qed

text \<open>
  Claim C10. The sequences folder is not persisted. Whenever a widget state asset is found,
  \<open>LoadWidgetOptionStates\<close> sets \<open>SelectedSequencesFolder\<close> to the empty string and takes
  every other option from the asset. What \<open>SaveWidgetOptionStates\<close> stores does not depend
  on the selected folder, and a widget manager constructed in a later session that loads the
  stored asset has an empty sequences folder.
\<close>

theorem sequences_folder_not_persisted:
  "(WidgetStateAssetObject s = Some a \<longrightarrow>
      SelectedSequencesFolder (LoadWidgetOptionStates d s) = [] \<and>
      ExportCameraPoses (SequenceRendererTargets (LoadWidgetOptionStates d s)) = bCameraPosesSelected a \<and>
      TargetSelected COLOR_IMAGE (SequenceRendererTargets (LoadWidgetOptionStates d s)) = bColorImagesSelected a \<and>
      TargetSelected DEPTH_IMAGE (SequenceRendererTargets (LoadWidgetOptionStates d s)) = bDepthImagesSelected a \<and>
      TargetSelected NORMAL_IMAGE (SequenceRendererTargets (LoadWidgetOptionStates d s)) = bNormalImagesSelected a \<and>
      TargetSelected OPTICAL_FLOW_IMAGE (SequenceRendererTargets (LoadWidgetOptionStates d s)) =
        bOpticalFlowImagesSelected a \<and>
      TargetSelected SEMANTIC_IMAGE (SequenceRendererTargets (LoadWidgetOptionStates d s)) =
        bSemanticImagesSelected a \<and>
      OutputFormat COLOR_IMAGE (SequenceRendererTargets (LoadWidgetOptionStates d s)) =
        static_cast_EImageFormat (bColorImagesOutputFormat a) \<and>
      OutputFormat DEPTH_IMAGE (SequenceRendererTargets (LoadWidgetOptionStates d s)) =
        static_cast_EImageFormat (bDepthImagesOutputFormat a) \<and>
      OutputFormat NORMAL_IMAGE (SequenceRendererTargets (LoadWidgetOptionStates d s)) =
        static_cast_EImageFormat (bNormalImagesOutputFormat a) \<and>
      OutputFormat OPTICAL_FLOW_IMAGE (SequenceRendererTargets (LoadWidgetOptionStates d s)) =
        static_cast_EImageFormat (bOpticalFlowImagesOutputFormat a) \<and>
      OutputFormat SEMANTIC_IMAGE (SequenceRendererTargets (LoadWidgetOptionStates d s)) =
        static_cast_EImageFormat (bSemanticImagesOutputFormat a) \<and>
      OutputFormat CUSTOM_PP_MATERIAL (SequenceRendererTargets (LoadWidgetOptionStates d s)) =
        static_cast_EImageFormat (bCustomPPMaterialOutputFormat a) \<and>
      CustomPPMaterial (SequenceRendererTargets (LoadWidgetOptionStates d s)) =
        FAssetData_of_UObject (TryLoad d (CustomPPMaterialAssetPath a)) \<and>
      OutputImageResolution (LoadWidgetOptionStates d s) = UWidgetStateAsset.OutputImageResolution a \<and>
      DepthRangeMeters (SequenceRendererTargets (LoadWidgetOptionStates d s)) = DepthRange a \<and>
      OpticalFlowScale (SequenceRendererTargets (LoadWidgetOptionStates d s)) =
        UWidgetStateAsset.OpticalFlowScale a \<and>
      OutputDirectory (LoadWidgetOptionStates d s) = UWidgetStateAsset.OutputDirectory a) \<and>
   WidgetStateAssetObject (SaveWidgetOptionStates d (OnSequencesFolderChanged folder s)) =
     WidgetStateAssetObject (SaveWidgetOptionStates d s) \<and>
   SelectedSequencesFolder
     (LoadWidgetOptionStates d
        (FWidgetManager_ctor d (WidgetStateAssetObject (SaveWidgetOptionStates d s)) es)) = []"
proof (intro conjI impI)
  show "WidgetStateAssetObject (SaveWidgetOptionStates d (OnSequencesFolderChanged folder s)) =
     WidgetStateAssetObject (SaveWidgetOptionStates d s)"
    by (simp add: SaveWidgetOptionStates_def OnSequencesFolderChanged_def emit_def Let_def
          split: option.split)
next
  obtain a' where "WidgetStateAssetObject (SaveWidgetOptionStates d s) = Some a'"
    using SaveWidgetOptionStates_asset [of d s] by blast
  then show "SelectedSequencesFolder
     (LoadWidgetOptionStates d
        (FWidgetManager_ctor d (WidgetStateAssetObject (SaveWidgetOptionStates d s)) es)) = []"
    by (simp add: LoadWidgetOptionStates_def FWidgetManager_ctor_def)
qed (simp_all add: LoadWidgetOptionStates_Some)

theorem sequences_folder_not_persisted_witness:
  "WidgetStateAssetObject example_stored = Some example_asset \<and>
   SelectedSequencesFolder example_stored = ''C:/Project/Content/Seqs'' \<and>
   SelectedSequencesFolder (LoadWidgetOptionStates example_deps example_stored) = [] \<and>
   \<not> ExportCameraPoses (SequenceRendererTargets (LoadWidgetOptionStates example_deps example_stored)) \<and>
   OutputImageResolution (LoadWidgetOptionStates example_deps example_stored) = FIntPoint 1920 1080 \<and>
   OutputDirectory (LoadWidgetOptionStates example_deps example_stored) = []"
proof -
  have stored: "WidgetStateAssetObject example_stored = Some example_asset"
    and folder: "SelectedSequencesFolder example_stored = ''C:/Project/Content/Seqs''"
    by (simp_all add: example_stored_def example_editor_def)
  have vals: "\<not> bCameraPosesSelected example_asset"
    "UWidgetStateAsset.OutputImageResolution example_asset = FIntPoint 1920 1080"
    "UWidgetStateAsset.OutputDirectory example_asset = []"
    by (simp_all add: example_asset_def)
  from sequences_folder_not_persisted
         [where d = example_deps and s = example_stored and a = example_asset, THEN conjunct1] stored
  show ?thesis
    by (simp add: vals folder)
qed

end
